theory Spec2Isabelle
  imports Complex_Main "HOL-Library.Multiset"
begin

section \<open>The delivery simulation engine (backend/src/services/simulationService.ts)\<close>

text \<open>
  A JavaScript number is an IEEE double. A finite double is modelled by the rational it
  stands for, and every \<open>+\<close>, \<open>-\<close>, \<open>*\<close> and \<open>/\<close> of the source by the exact operation
  followed by the rounding to the nearest double (\<open>fround\<close> below); comparisons are exact.
  A \<open>Date\<close> is its time value, the (integer) number of milliseconds since the epoch.
  A thrown \<open>Error\<close> is the left injection of a sum, carrying the error's message.
\<close>

subsection \<open>Data model\<close>

datatype trafficLevel = Low | Medium | High

text \<open>models/Driver.ts, models/Route.ts, models/Order.ts: the fields the engine reads.\<close>

record Driver =
  driver_id :: string
  driver_name :: string
  currentShiftHours :: rat
  pastWeekHours :: rat

record Route =
  routeId :: string
  distance :: rat
  trafficLevel :: trafficLevel
  baseTime :: rat

record Order =
  orderId :: string
  order_value :: rat
  assignedRoute :: string
  deliveryTimestamp :: int

record SimulationInput =
  availableDrivers :: rat
  startTime :: string
  maxHoursPerDay :: rat

record DriverAssignment =
  driverId :: string
  driverName :: string
  assignedOrders :: "string list"
  totalHours :: rat
  totalDistance :: rat
  isFatigued :: bool

datatype deliveryStatus = OnTime | Late

record OrderResult =
  or_orderId :: string
  assignedDriver :: string
  or_routeId :: string
  orderValue :: rat
  deliveryStatus :: deliveryStatus
  or_fuelCost :: rat
  penalty :: rat
  bonus :: rat
  profit :: rat

text \<open>The object \<open>calculateKPIs\<close> returns; a \<open>SimulationResult\<close> spreads it and adds the two
  lists.\<close>

record KPIs =
  totalProfit :: rat
  efficiencyScore :: rat
  onTimeDeliveries :: nat
  lateDeliveries :: nat
  kpi_fuelCost :: rat
  penalties :: rat
  bonuses :: rat

record SimulationResult = KPIs +
  driverAssignments :: "DriverAssignment list"
  orderResults :: "OrderResult list"

subsection \<open>Arithmetic on doubles\<close>

text \<open>The number of binary digits of a positive integer.\<close>

function bitLength :: "int \<Rightarrow> int" where
  "bitLength n = (if n \<le> 0 then 0 else 1 + bitLength (n div 2))"
  by pat_completeness auto
termination
  by (relation "measure nat") auto

definition pow2 :: "int \<Rightarrow> rat" where
  "pow2 e = (if 0 \<le> e then 2 ^ nat e else 1 / 2 ^ nat (- e))"

text \<open>The binary exponent of a rational other than 0: the \<open>e\<close> with
  \<open>2 ^ e \<le> \<bar>x\<bar> < 2 ^ (e + 1)\<close>. The quotient of a numerator of \<open>m\<close> binary digits by a
  denominator of \<open>n\<close> lies between \<open>2 ^ (m - n - 1)\<close> and \<open>2 ^ (m - n + 1)\<close>.\<close>

definition binaryExponent :: "rat \<Rightarrow> int" where
  "binaryExponent x =
     (let (p, q) = quotient_of \<bar>x\<bar>;
          e = bitLength p - bitLength q
      in if pow2 e \<le> \<bar>x\<bar> then e else e - 1)"

text \<open>The nearest integer, a half going to the even neighbour.\<close>

definition roundHalfEven :: "rat \<Rightarrow> int" where
  "roundHalfEven x =
     (let f = \<lfloor>x\<rfloor>; d = x - of_int f
      in if d < 1 / 2 then f else if 1 / 2 < d then f + 1 else if even f then f else f + 1)"

text \<open>The nearest double, ties to even: 53 binary digits, the exponent not below that of the
  subnormal numbers. The largest doubles are left out: a result beyond them, which the code
  would see as \<open>Infinity\<close>, is far from what drivers, routes and orders within the limits of
  their schemas produce.\<close>

definition fround :: "rat \<Rightarrow> rat" where
  "fround x =
     (if x = 0 then 0
      else (let quantum = pow2 (max (binaryExponent x) (- 1022) - 52)
            in sgn x * of_int (roundHalfEven (\<bar>x\<bar> / quantum)) * quantum))"

definition fadd :: "rat \<Rightarrow> rat \<Rightarrow> rat" where
  "fadd x y = fround (x + y)"

definition fsub :: "rat \<Rightarrow> rat \<Rightarrow> rat" where
  "fsub x y = fround (x - y)"

definition fmul :: "rat \<Rightarrow> rat \<Rightarrow> rat" where
  "fmul x y = fround (x * y)"

definition fdiv :: "rat \<Rightarrow> rat \<Rightarrow> rat" where
  "fdiv x y = fround (x / y)"

subsection \<open>JavaScript built-ins used by the engine\<close>

text \<open>\<open>Math.round\<close>: the nearest integer, halves rounded towards plus infinity.\<close>

definition Math_round :: "rat \<Rightarrow> int" where
  "Math_round x = \<lfloor>x + 1 / 2\<rfloor>"

text \<open>\<open>ToIntegerOrInfinity\<close>, applied by \<open>Date.prototype.setMinutes\<close> to its argument:
  the fraction is dropped, towards zero.\<close>

definition ToInteger :: "rat \<Rightarrow> int" where
  "ToInteger x = (if x < 0 then - \<lfloor>- x\<rfloor> else \<lfloor>x\<rfloor>)"

text \<open>The environment of a run: what \<open>new Date()\<close> returns (milliseconds since the epoch)
  and the time zone of the machine, as ECMAScript's \<open>LocalTZA(t, isUTC)\<close>: the offset of
  local time from UTC in milliseconds, at the UTC time \<open>t\<close> when \<open>isUTC\<close> holds and at the
  local time \<open>t\<close> otherwise. It varies with \<open>t\<close> where daylight saving is kept.\<close>

record Clock =
  now :: int
  LocalTZA :: "int \<Rightarrow> bool \<Rightarrow> int"

definition LocalTime :: "Clock \<Rightarrow> int \<Rightarrow> int" where
  "LocalTime c t = t + LocalTZA c t True"

definition UTC :: "Clock \<Rightarrow> int \<Rightarrow> int" where
  "UTC c t = t - LocalTZA c t False"

text \<open>The fields of a time value, and their recomposition (ECMAScript \<open>Day\<close>,
  \<open>HourFromTime\<close>, \<open>MinFromTime\<close>, \<open>SecFromTime\<close>, \<open>msFromTime\<close>, \<open>MakeTime\<close>,
  \<open>MakeDate\<close>).\<close>

definition Day :: "int \<Rightarrow> int" where
  "Day t = t div 86400000"

definition HourFromTime :: "int \<Rightarrow> int" where
  "HourFromTime t = (t div 3600000) mod 24"

definition MinFromTime :: "int \<Rightarrow> int" where
  "MinFromTime t = (t div 60000) mod 60"

definition SecFromTime :: "int \<Rightarrow> int" where
  "SecFromTime t = (t div 1000) mod 60"

definition msFromTime :: "int \<Rightarrow> int" where
  "msFromTime t = t mod 1000"

definition MakeTime :: "int \<Rightarrow> int \<Rightarrow> int \<Rightarrow> int \<Rightarrow> int" where
  "MakeTime hour minute sec ms = hour * 3600000 + minute * 60000 + sec * 1000 + ms"

definition MakeDate :: "int \<Rightarrow> int \<Rightarrow> int" where
  "MakeDate day time = day * 86400000 + time"

text \<open>\<open>d.getMinutes()\<close>: the minute of the hour, in local time.\<close>

definition getMinutes :: "Clock \<Rightarrow> int \<Rightarrow> int" where
  "getMinutes c t = MinFromTime (LocalTime c t)"

text \<open>\<open>d.setMinutes(m)\<close>: in local time, the minute field is replaced by the integer part of
  \<open>m\<close>, the other fields stay, and a value outside 0..59 carries into them; the new local
  time is taken back to UTC.\<close>

definition setMinutes :: "Clock \<Rightarrow> int \<Rightarrow> rat \<Rightarrow> int" where
  "setMinutes c t m =
     (let local = LocalTime c t
      in UTC c (MakeDate (Day local)
                  (MakeTime (HourFromTime local) (ToInteger m) (SecFromTime local)
                     (msFromTime local))))"

text \<open>\<open>d.setHours(h, m, 0, 0)\<close>: the local day of \<open>d\<close> at \<open>h\<close> hours and \<open>m\<close> minutes,
  taken back to UTC.\<close>

definition setHours :: "Clock \<Rightarrow> int \<Rightarrow> int \<Rightarrow> int \<Rightarrow> int" where
  "setHours c t h m =
     (let local = LocalTime c t
      in UTC c (MakeDate (Day local) (MakeTime h m 0 0)))"

definition isDigit :: "char \<Rightarrow> bool" where
  "isDigit c = (c \<in> set ''0123456789'')"

definition digitVal :: "char \<Rightarrow> int" where
  "digitVal c = int (of_char c) - 48"

text \<open>\<open>Number(s)\<close> on a string of decimal digits.\<close>

definition Number :: "string \<Rightarrow> int" where
  "Number s = foldl (\<lambda>n c. 10 * n + digitVal c) 0 s"

text \<open>\<open>s.split(':')\<close>, read at its first two components.\<close>

definition splitColon :: "string \<Rightarrow> string \<times> string" where
  "splitColon s =
     (let h = takeWhile (\<lambda>c. c \<noteq> CHR '':'') s;
          r = drop (length h + 1) s
      in (h, takeWhile (\<lambda>c. c \<noteq> CHR '':'') r))"

subsection \<open>Virtual attributes of a route (models/Route.ts)\<close>

text \<open>A decimal literal of the source stands for the double nearest to it.\<close>

definition fuelCost :: "Route \<Rightarrow> rat" where
  "fuelCost r =
     (let baseCost = fmul (distance r) 5;
          surcharge = (if trafficLevel r = High then fmul (distance r) 2 else 0)
      in fadd baseCost surcharge)"

fun trafficMultipliers :: "trafficLevel \<Rightarrow> rat" where
  "trafficMultipliers Low = fround 1"
| "trafficMultipliers Medium = fround (12 / 10)"
| "trafficMultipliers High = fround (15 / 10)"

definition adjustedTime :: "Route \<Rightarrow> rat" where
  "adjustedTime r =
     of_int (Math_round (fmul (baseTime r) (trafficMultipliers (trafficLevel r))))"

subsection \<open>validateSimulationInput\<close>

text \<open>The pattern \<^verbatim>\<open>/^([01]?[0-9]|2[0-3]):[0-5][0-9]$/\<close>: the hour is one digit, or a
  digit after 0 or 1, or 2 followed by one of 0..3; then a colon and two digits, the first
  one at most 5. The anchors make the whole string match.\<close>

definition hourPart :: "string \<Rightarrow> bool" where
  "hourPart h =
     (case h of
        [d] \<Rightarrow> isDigit d
      | [a, d] \<Rightarrow> (a \<in> set ''01'' \<and> isDigit d) \<or> (a = CHR ''2'' \<and> d \<in> set ''0123'')
      | _ \<Rightarrow> False)"

definition minutePart :: "string \<Rightarrow> bool" where
  "minutePart m = (case m of [a, d] \<Rightarrow> a \<in> set ''012345'' \<and> isDigit d | _ \<Rightarrow> False)"

definition timeRegex :: "string \<Rightarrow> bool" where
  "timeRegex s =
     (case s of
        [h, c, m1, m2] \<Rightarrow> hourPart [h] \<and> c = CHR '':'' \<and> minutePart [m1, m2]
      | [h1, h2, c, m1, m2] \<Rightarrow> hourPart [h1, h2] \<and> c = CHR '':'' \<and> minutePart [m1, m2]
      | _ \<Rightarrow> False)"

definition validateSimulationInput :: "SimulationInput \<Rightarrow> string + unit" where
  "validateSimulationInput input =
     (if availableDrivers input \<le> 0 then
        Inl ''Available drivers must be greater than 0''
      else if maxHoursPerDay input \<le> 0 \<or> maxHoursPerDay input > 24 then
        Inl ''Max hours per day must be between 1 and 24''
      else if \<not> timeRegex (startTime input) then
        Inl ''Start time must be in HH:MM format''
      else Inr ())"

subsection \<open>assignOrdersToDrivers\<close>

definition initAssignment :: "Driver \<Rightarrow> DriverAssignment" where
  "initAssignment d =
     \<lparr>driverId = driver_id d, driverName = driver_name d, assignedOrders = [],
      totalHours = 0, totalDistance = 0, isFatigued = (currentShiftHours d > 8)\<rparr>"

text \<open>\<open>new Map(routes.map(route => [route.routeId, route]))\<close>: of two routes with one id
  the later one stays.\<close>

definition routeMap :: "Route list \<Rightarrow> string \<Rightarrow> Route option" where
  "routeMap routes = map_of (rev (map (\<lambda>r. (routeId r, r)) routes))"

text \<open>\<open>[...orders].sort((a, b) => time a - time b)\<close>: \<open>Array.prototype.sort\<close> is stable.\<close>

definition sortedOrders :: "Order list \<Rightarrow> Order list" where
  "sortedOrders orders = sort_key deliveryTimestamp orders"

definition canDriverHandleOrder :: "DriverAssignment \<Rightarrow> Route \<Rightarrow> rat \<Rightarrow> int \<Rightarrow> bool" where
  "canDriverHandleOrder assignment route maxHours start =
     (let additionalHours = fdiv (adjustedTime route) 60
      in if fadd (totalHours assignment) additionalHours > maxHours then False else True)"

definition calculateDriverScore :: "DriverAssignment \<Rightarrow> Route \<Rightarrow> rat" where
  "calculateDriverScore assignment route =
     (let score = 100;
          score = (if isFatigued assignment then fsub score 30 else score);
          score = fsub score (fmul (of_nat (length (assignedOrders assignment))) 5);
          score = fsub score (fmul (totalDistance assignment) (fround (1 / 10)))
      in max 0 score)"

text \<open>The inner loop over the assignments. \<open>bestDriver\<close> refers to one of the assignment
  objects; here it is the position of that object in the list.\<close>

fun bestDriverLoop ::
  "DriverAssignment list \<Rightarrow> nat \<Rightarrow> Route \<Rightarrow> rat \<Rightarrow> int \<Rightarrow> nat option \<times> rat \<Rightarrow> nat option \<times> rat"
where
  "bestDriverLoop [] i route maxHours start (bestDriver, bestScore) = (bestDriver, bestScore)"
| "bestDriverLoop (assignment # rest) i route maxHours start (bestDriver, bestScore) =
     (if canDriverHandleOrder assignment route maxHours start then
        (let score = calculateDriverScore assignment route
         in if score > bestScore
            then bestDriverLoop rest (Suc i) route maxHours start (Some i, score)
            else bestDriverLoop rest (Suc i) route maxHours start (bestDriver, bestScore))
      else bestDriverLoop rest (Suc i) route maxHours start (bestDriver, bestScore))"

definition findBestDriver :: "DriverAssignment list \<Rightarrow> Route \<Rightarrow> rat \<Rightarrow> int \<Rightarrow> nat option" where
  "findBestDriver assignments route maxHours start =
     fst (bestDriverLoop assignments 0 route maxHours start (None, - 1))"

definition acceptOrder :: "DriverAssignment \<Rightarrow> Order \<Rightarrow> Route \<Rightarrow> DriverAssignment" where
  "acceptOrder bestDriver order route =
     bestDriver\<lparr>assignedOrders := assignedOrders bestDriver @ [orderId order],
                totalHours := fadd (totalHours bestDriver) (fdiv (adjustedTime route) 60),
                totalDistance := fadd (totalDistance bestDriver) (distance route)\<rparr>"

text \<open>One round of the outer loop.\<close>

definition assignOrder ::
  "Route list \<Rightarrow> rat \<Rightarrow> int \<Rightarrow> DriverAssignment list \<Rightarrow> Order \<Rightarrow> DriverAssignment list"
where
  "assignOrder routes maxHours start assignments order =
     (case routeMap routes (assignedRoute order) of
        None \<Rightarrow> assignments
      | Some route \<Rightarrow>
          (case findBestDriver assignments route maxHours start of
             None \<Rightarrow> assignments
           | Some i \<Rightarrow> assignments[i := acceptOrder (assignments ! i) order route]))"

definition assignOrdersToDrivers ::
  "Driver list \<Rightarrow> Order list \<Rightarrow> Route list \<Rightarrow> int \<Rightarrow> rat \<Rightarrow> DriverAssignment list"
where
  "assignOrdersToDrivers drivers orders routes start maxHours =
     foldl (assignOrder routes maxHours start) (map initAssignment drivers) (sortedOrders orders)"

subsection \<open>calculateOrderResults\<close>

definition calculateDeliveryTime :: "Clock \<Rightarrow> int \<Rightarrow> Route \<Rightarrow> bool \<Rightarrow> int" where
  "calculateDeliveryTime c start route fatigued =
     (let adjusted = adjustedTime route;
          adjusted = (if fatigued then fmul adjusted (fround (13 / 10)) else adjusted)
      in setMinutes c start (fadd (of_int (getMinutes c start)) adjusted))"

definition orderResult ::
  "Clock \<Rightarrow> Route list \<Rightarrow> DriverAssignment list \<Rightarrow> int \<Rightarrow> Order \<Rightarrow> string + OrderResult"
where
  "orderResult c routes assignments start order =
     (case routeMap routes (assignedRoute order) of
        None \<Rightarrow> Inl (''Route '' @ assignedRoute order @ '' not found'')
      | Some route \<Rightarrow>
          (let assigned = find (\<lambda>d. orderId order \<in> set (assignedOrders d)) assignments;
               deliveryTime = calculateDeliveryTime c start route
                 (case assigned of None \<Rightarrow> False | Some d \<Rightarrow> isFatigued d);
               expectedDelivery = deliveryTimestamp order;
               isOnTime = (deliveryTime \<le> expectedDelivery);
               fuel = fuelCost route;
               pen = (if isOnTime then 0 else 50);
               bon = (if order_value order > 1000 \<and> isOnTime
                      then fmul (order_value order) (fround (1 / 10)) else 0);
               prof = fsub (fsub (fadd (order_value order) bon) pen) fuel
           in Inr \<lparr>or_orderId = orderId order,
                   assignedDriver =
                     (case assigned of
                        None \<Rightarrow> ''Unassigned''
                      | Some d \<Rightarrow> if driverName d = [] then ''Unassigned'' else driverName d),
                   or_routeId = assignedRoute order,
                   orderValue = order_value order,
                   deliveryStatus = (if isOnTime then OnTime else Late),
                   or_fuelCost = fuel, penalty = pen, bonus = bon, profit = prof\<rparr>))"

text \<open>\<open>orders.map(...)\<close> with a callback that may throw: the first throw ends the map.\<close>

fun mapThrowing :: "('a \<Rightarrow> string + 'b) \<Rightarrow> 'a list \<Rightarrow> string + 'b list" where
  "mapThrowing f [] = Inr []"
| "mapThrowing f (x # xs) =
     (case f x of
        Inl e \<Rightarrow> Inl e
      | Inr y \<Rightarrow> (case mapThrowing f xs of Inl e \<Rightarrow> Inl e | Inr ys \<Rightarrow> Inr (y # ys)))"

definition calculateOrderResults ::
  "Clock \<Rightarrow> Order list \<Rightarrow> Route list \<Rightarrow> DriverAssignment list \<Rightarrow> int \<Rightarrow> string + OrderResult list"
where
  "calculateOrderResults c orders routes assignments start =
     mapThrowing (orderResult c routes assignments start) orders"

subsection \<open>calculateKPIs and runSimulation\<close>

text \<open>\<open>Math.round(x * 100) / 100\<close>.\<close>

definition round2 :: "rat \<Rightarrow> rat" where
  "round2 x = fdiv (of_int (Math_round (fmul x 100))) 100"

definition calculateKPIs :: "OrderResult list \<Rightarrow> KPIs" where
  "calculateKPIs results =
     (let total = foldl (\<lambda>s r. fadd s (profit r)) 0 results;
          onTime = length (filter (\<lambda>r. deliveryStatus r = OnTime) results);
          late = length (filter (\<lambda>r. deliveryStatus r = Late) results);
          totalDeliveries = length results;
          efficiency = (if totalDeliveries > 0
                        then fmul (fdiv (of_nat onTime) (of_nat totalDeliveries)) 100 else 0);
          fuel = foldl (\<lambda>s r. fadd s (or_fuelCost r)) 0 results;
          pens = foldl (\<lambda>s r. fadd s (penalty r)) 0 results;
          bons = foldl (\<lambda>s r. fadd s (bonus r)) 0 results
      in \<lparr>totalProfit = round2 total, efficiencyScore = round2 efficiency,
          onTimeDeliveries = onTime, lateDeliveries = late, kpi_fuelCost = round2 fuel,
          penalties = pens, bonuses = round2 bons\<rparr>)"

text \<open>\<open>const [startHour, startMinute] = input.startTime.split(':').map(Number)\<close>, then
  \<open>new Date()\<close> with its hours and minutes set: today, at the start time.\<close>

definition simulationStart :: "Clock \<Rightarrow> SimulationInput \<Rightarrow> int" where
  "simulationStart c input =
     (let (startHour, startMinute) = splitColon (startTime input)
      in setHours c (now c) (Number startHour) (Number startMinute))"

text \<open>The body of the \<open>try\<close> block. The three collections are the ones the data layer
  returned: the drivers (already limited to \<open>availableDrivers\<close>), all routes, and the orders
  not yet delivered.\<close>

definition runSimulationBody ::
  "Clock \<Rightarrow> SimulationInput \<Rightarrow> Driver list \<Rightarrow> Route list \<Rightarrow> Order list \<Rightarrow> string + SimulationResult"
where
  "runSimulationBody c input drivers routes orders =
     (case validateSimulationInput input of
        Inl e \<Rightarrow> Inl e
      | Inr _ \<Rightarrow>
          if drivers = [] then Inl ''No drivers available for simulation''
          else if orders = [] then Inl ''No pending orders for simulation''
          else
            (let start = simulationStart c input;
                 assignments =
                   assignOrdersToDrivers drivers orders routes start (maxHoursPerDay input)
             in case calculateOrderResults c orders routes assignments start of
                  Inl e \<Rightarrow> Inl e
                | Inr results \<Rightarrow>
                    (let kpis = calculateKPIs results
                     in Inr \<lparr>totalProfit = totalProfit kpis,
                             efficiencyScore = efficiencyScore kpis,
                             onTimeDeliveries = onTimeDeliveries kpis,
                             lateDeliveries = lateDeliveries kpis,
                             kpi_fuelCost = kpi_fuelCost kpis,
                             penalties = penalties kpis,
                             bonuses = bonuses kpis,
                             driverAssignments = assignments,
                             orderResults = results\<rparr>)))"

text \<open>The \<open>catch\<close> clause rethrows every error with a prefix before its message.\<close>

definition runSimulation ::
  "Clock \<Rightarrow> SimulationInput \<Rightarrow> Driver list \<Rightarrow> Route list \<Rightarrow> Order list \<Rightarrow> string + SimulationResult"
where
  "runSimulation c input drivers routes orders =
     (case runSimulationBody c input drivers routes orders of
        Inl message \<Rightarrow> Inl (''Simulation failed: '' @ message)
      | Inr result \<Rightarrow> Inr result)"

subsection \<open>Notions the properties are stated with\<close>

text \<open>The hours an order id stands for: the adjusted time of the route of the order with
  that id, divided by 60 as the code divides it (nothing when the id or the route is
  unknown); and the sum of these hours over the assigned orders of a driver, added up in
  doubles from 0 in the order of the list, as the code adds them.\<close>

definition orderOfId :: "Order list \<Rightarrow> string \<Rightarrow> Order option" where
  "orderOfId orders oid = find (\<lambda>order. orderId order = oid) orders"

definition routeHours :: "Route list \<Rightarrow> Order list \<Rightarrow> string \<Rightarrow> rat" where
  "routeHours routes orders oid =
     (case orderOfId orders oid of
        None \<Rightarrow> 0
      | Some order \<Rightarrow>
          (case routeMap routes (assignedRoute order) of
             None \<Rightarrow> 0
           | Some route \<Rightarrow> fdiv (adjustedTime route) 60))"

definition assignedHours :: "Route list \<Rightarrow> Order list \<Rightarrow> DriverAssignment \<Rightarrow> rat" where
  "assignedHours routes orders a =
     foldl (\<lambda>sum oid. fadd sum (routeHours routes orders oid)) 0 (assignedOrders a)"

text \<open>The data of the repository's test \<open>should calculate high-value bonus correctly\<close>
  (tests of SimulationService), and a second driver and order beside them.\<close>

definition test_driver :: Driver where
  "test_driver = \<lparr>driver_id = ''driver1'', driver_name = ''Test Driver'',
                   currentShiftHours = 6, pastWeekHours = 35\<rparr>"

definition test_route :: Route where
  "test_route = \<lparr>routeId = ''R001'', distance = 15, trafficLevel = Low, baseTime = 20\<rparr>"

definition test_order :: Order where
  "test_order = \<lparr>orderId = ''O001'', order_value = 1500, assignedRoute = ''R001'',
                  deliveryTimestamp = 1705312800000\<rparr>"

definition test_input :: SimulationInput where
  "test_input = \<lparr>availableDrivers = 1, startTime = ''08:00'', maxHoursPerDay = 10\<rparr>"

definition tired_driver :: Driver where
  "tired_driver = \<lparr>driver_id = ''driver2'', driver_name = ''Fatigued Driver'',
                    currentShiftHours = 9, pastWeekHours = 40\<rparr>"

definition second_order :: Order where
  "second_order = \<lparr>orderId = ''O002'', order_value = 800, assignedRoute = ''R001'',
                    deliveryTimestamp = 1705309200000\<rparr>"

text \<open>A route of two hours, an order on a route that does not exist, and a clock: one hour
  after midnight of 15 January 2024, the day of the deadlines above, on a machine whose
  local time is UTC.\<close>

definition long_route :: Route where
  "long_route = \<lparr>routeId = ''R001'', distance = 50, trafficLevel = Low, baseTime = 120\<rparr>"

definition lost_order :: Order where
  "lost_order = \<lparr>orderId = ''O003'', order_value = 500, assignedRoute = ''R999'',
                  deliveryTimestamp = 1705312800000\<rparr>"

definition test_clock :: Clock where
  "test_clock = \<lparr>now = 1705280400000, LocalTZA = (\<lambda>t isUTC. 0)\<rparr>"

text \<open>What the run on the test's data returns when the clock reads \<open>test_clock\<close>. The hours
  of the driver are the double \<open>20 / 60\<close>, that is 0.3333333333333333.\<close>

definition test_result :: SimulationResult where
  "test_result =
     \<lparr>totalProfit = 1575, efficiencyScore = 100, onTimeDeliveries = 1, lateDeliveries = 0,
      kpi_fuelCost = 75, penalties = 0, bonuses = 150,
      driverAssignments =
        [\<lparr>driverId = ''driver1'', driverName = ''Test Driver'', assignedOrders = [''O001''],
          totalHours = 6004799503160661 / 18014398509481984, totalDistance = 15, isFatigued = False\<rparr>],
      orderResults =
        [\<lparr>or_orderId = ''O001'', assignedDriver = ''Test Driver'', or_routeId = ''R001'',
          orderValue = 1500, deliveryStatus = OnTime, or_fuelCost = 75, penalty = 0,
          bonus = 150, profit = 1575\<rparr>]\<rparr>"

text \<open>The same with a route of two hours and a bound of one hour: no driver takes the
  order.\<close>

definition unassigned_result :: SimulationResult where
  "unassigned_result =
     \<lparr>totalProfit = 1400, efficiencyScore = 100, onTimeDeliveries = 1, lateDeliveries = 0,
      kpi_fuelCost = 250, penalties = 0, bonuses = 150,
      driverAssignments =
        [\<lparr>driverId = ''driver1'', driverName = ''Test Driver'', assignedOrders = [],
          totalHours = 0, totalDistance = 0, isFatigued = False\<rparr>],
      orderResults =
        [\<lparr>or_orderId = ''O001'', assignedDriver = ''Unassigned'', or_routeId = ''R001'',
          orderValue = 1500, deliveryStatus = OnTime, or_fuelCost = 250, penalty = 0,
          bonus = 150, profit = 1400\<rparr>]\<rparr>"

text \<open>And with the clock one day later.\<close>

definition next_day_clock :: Clock where
  "next_day_clock = \<lparr>now = 1705366800000, LocalTZA = (\<lambda>t isUTC. 0)\<rparr>"

definition next_day_result :: SimulationResult where
  "next_day_result =
     \<lparr>totalProfit = 1375, efficiencyScore = 0, onTimeDeliveries = 0, lateDeliveries = 1,
      kpi_fuelCost = 75, penalties = 50, bonuses = 0,
      driverAssignments =
        [\<lparr>driverId = ''driver1'', driverName = ''Test Driver'', assignedOrders = [''O001''],
          totalHours = 6004799503160661 / 18014398509481984, totalDistance = 15, isFatigued = False\<rparr>],
      orderResults =
        [\<lparr>or_orderId = ''O001'', assignedDriver = ''Test Driver'', or_routeId = ''R001'',
          orderValue = 1500, deliveryStatus = Late, or_fuelCost = 75, penalty = 50,
          bonus = 0, profit = 1375\<rparr>]\<rparr>"

text \<open>The route of the first test: 45 minutes in medium traffic, 54 minutes adjusted.\<close>

definition medium_route :: Route where
  "medium_route = \<lparr>routeId = ''R001'', distance = 25, trafficLevel = Medium, baseTime = 45\<rparr>"

text \<open>The start time format as the specification words it: two digits for the hour, from 00
  to 23, a colon, two digits for the minute, from 00 to 59.\<close>

definition twoDigitHHMM :: "string \<Rightarrow> bool" where
  "twoDigitHHMM s =
     (case s of
        [h1, h2, c, m1, m2] \<Rightarrow>
          isDigit h1 \<and> isDigit h2 \<and> 10 * digitVal h1 + digitVal h2 \<le> 23 \<and> c = CHR '':'' \<and>
          isDigit m1 \<and> isDigit m2 \<and> 10 * digitVal m1 + digitVal m2 \<le> 59
      | _ \<Rightarrow> False)"

text \<open>The messages of the three checks of \<open>validateSimulationInput\<close>.\<close>

definition validationMessages :: "string list" where
  "validationMessages =
     [''Available drivers must be greater than 0'',
      ''Max hours per day must be between 1 and 24'',
      ''Start time must be in HH:MM format'']"

text \<open>Three routes of 24, 92 and 4 minutes with an order on each: in doubles the hours add
  up to 2.0000000000000004, so a driver with a bound of 2 hours takes the first two only.\<close>

definition route_24 :: Route where
  "route_24 = \<lparr>routeId = ''R024'', distance = 10, trafficLevel = Low, baseTime = 24\<rparr>"

definition route_92 :: Route where
  "route_92 = \<lparr>routeId = ''R092'', distance = 40, trafficLevel = Low, baseTime = 92\<rparr>"

definition route_4 :: Route where
  "route_4 = \<lparr>routeId = ''R004'', distance = 2, trafficLevel = Low, baseTime = 4\<rparr>"

definition order_24 :: Order where
  "order_24 = \<lparr>orderId = ''O011'', order_value = 500, assignedRoute = ''R024'',
                 deliveryTimestamp = 1705312800000\<rparr>"

definition order_92 :: Order where
  "order_92 = \<lparr>orderId = ''O012'', order_value = 500, assignedRoute = ''R092'',
                 deliveryTimestamp = 1705316400000\<rparr>"

definition order_4 :: Order where
  "order_4 = \<lparr>orderId = ''O013'', order_value = 500, assignedRoute = ''R004'',
                deliveryTimestamp = 1705320000000\<rparr>"

definition two_hours_assignment :: DriverAssignment where
  "two_hours_assignment =
     \<lparr>driverId = ''driver1'', driverName = ''Test Driver'', assignedOrders = [''O011'', ''O012''],
      totalHours = 544184954973935 / 281474976710656, totalDistance = 50, isFatigued = False\<rparr>"

text \<open>Two assignments whose scores are one number in exact arithmetic, 63.6, and two in
  doubles: 63.599999999999994 for the first and 63.6 for the second.\<close>

definition busy_assignment :: DriverAssignment where
  "busy_assignment =
     \<lparr>driverId = ''driver1'', driverName = ''Test Driver'', assignedOrders = [''O001'', ''O002''],
      totalHours = 1, totalDistance = 264, isFatigued = False\<rparr>"

definition tired_assignment :: DriverAssignment where
  "tired_assignment =
     \<lparr>driverId = ''driver2'', driverName = ''Fatigued Driver'', assignedOrders = [''O003''],
      totalHours = 1 / 2, totalDistance = 14, isFatigued = True\<rparr>"

text \<open>The order of the test with the value 1001, and what the run returns for it: the bonus is
  the double 100.10000000000001 and the profit the double 1026.1.\<close>

definition odd_order :: Order where
  "odd_order = \<lparr>orderId = ''O001'', order_value = 1001, assignedRoute = ''R001'',
                 deliveryTimestamp = 1705312800000\<rparr>"

definition odd_result :: SimulationResult where
  "odd_result =
     \<lparr>totalProfit = 2256417762521907 / 2199023255552, efficiencyScore = 100,
      onTimeDeliveries = 1, lateDeliveries = 0, kpi_fuelCost = 75, penalties = 0,
      bonuses = 3521955646092083 / 35184372088832,
      driverAssignments =
        [\<lparr>driverId = ''driver1'', driverName = ''Test Driver'', assignedOrders = [''O001''],
          totalHours = 6004799503160661 / 18014398509481984, totalDistance = 15,
          isFatigued = False\<rparr>],
      orderResults =
        [\<lparr>or_orderId = ''O001'', assignedDriver = ''Test Driver'', or_routeId = ''R001'',
          orderValue = 1001, deliveryStatus = OnTime, or_fuelCost = 75, penalty = 0,
          bonus = 7043911292184167 / 70368744177664,
          profit = 2256417762521907 / 2199023255552\<rparr>]\<rparr>"

text \<open>A route of three minutes.\<close>

definition short_route :: Route where
  "short_route = \<lparr>routeId = ''R003'', distance = 1, trafficLevel = Low, baseTime = 3\<rparr>"

section \<open>Properties\<close>

subsection \<open>Choosing the driver of an order\<close>

lemma routeMap_None_iff: "routeMap routes k = None \<longleftrightarrow> k \<notin> routeId ` set routes"
  by (simp add: routeMap_def map_of_eq_None_iff image_image)

lemma calculateDriverScore_nonneg: "0 \<le> calculateDriverScore a route"
  by (simp add: calculateDriverScore_def Let_def)

lemma calculateDriverScore_eq:
  "calculateDriverScore a route =
     max 0 (fsub (fsub (if isFatigued a then fsub 100 30 else 100)
                    (fmul (of_nat (length (assignedOrders a))) 5))
              (fmul (totalDistance a) (fround (1 / 10))))"
  by (simp add: calculateDriverScore_def Let_def)

lemma canDriverHandleOrder_iff:
  "canDriverHandleOrder a route maxHours start \<longleftrightarrow>
     fadd (totalHours a) (fdiv (adjustedTime route) 60) \<le> maxHours"
  by (auto simp add: canDriverHandleOrder_def Let_def)

lemma bestDriverLoop_spec:
  "bestDriverLoop as i route maxHours start (b, bs) = (b', bs') \<Longrightarrow>
     (b' = b \<and> bs' = bs \<and>
        (\<forall>j<length as. canDriverHandleOrder (as ! j) route maxHours start \<longrightarrow>
            calculateDriverScore (as ! j) route \<le> bs))
     \<or> (\<exists>j<length as. b' = Some (i + j) \<and> canDriverHandleOrder (as ! j) route maxHours start \<and>
            bs' = calculateDriverScore (as ! j) route \<and> bs < bs' \<and>
            (\<forall>k<length as. canDriverHandleOrder (as ! k) route maxHours start \<longrightarrow>
               calculateDriverScore (as ! k) route \<le> bs' \<and>
               (k < j \<longrightarrow> calculateDriverScore (as ! k) route < bs')))"
proof (induction as arbitrary: i b bs)
  case Nil
  then show ?case by simp
next
  case (Cons a rest)
  let ?can = "\<lambda>x. canDriverHandleOrder x route maxHours start"
  let ?sc = "\<lambda>x. calculateDriverScore x route"
  show ?case
  proof (cases "?can a \<and> ?sc a > bs")
    case True
    with Cons.prems
    have run: "bestDriverLoop rest (Suc i) route maxHours start (Some i, ?sc a) = (b', bs')"
      by (simp add: Let_def)
    from Cons.IH [OF run] show ?thesis
    proof
      assume same: "b' = Some i \<and> bs' = ?sc a \<and>
        (\<forall>j<length rest. ?can (rest ! j) \<longrightarrow> ?sc (rest ! j) \<le> ?sc a)"
      have "\<forall>k<length (a # rest). ?can ((a # rest) ! k) \<longrightarrow>
              ?sc ((a # rest) ! k) \<le> bs' \<and> (k < 0 \<longrightarrow> ?sc ((a # rest) ! k) < bs')"
        using same by (auto simp add: nth_Cons split: nat.splits)
      with same True have "0 < length (a # rest) \<and> b' = Some (i + 0) \<and> ?can ((a # rest) ! 0) \<and>
            bs' = ?sc ((a # rest) ! 0) \<and> bs < bs' \<and>
            (\<forall>k<length (a # rest). ?can ((a # rest) ! k) \<longrightarrow>
               ?sc ((a # rest) ! k) \<le> bs' \<and> (k < 0 \<longrightarrow> ?sc ((a # rest) ! k) < bs'))"
        by simp
      then show ?thesis by blast
    next
      assume "\<exists>j<length rest. b' = Some (Suc i + j) \<and> ?can (rest ! j) \<and>
            bs' = ?sc (rest ! j) \<and> ?sc a < bs' \<and>
            (\<forall>k<length rest. ?can (rest ! k) \<longrightarrow>
               ?sc (rest ! k) \<le> bs' \<and> (k < j \<longrightarrow> ?sc (rest ! k) < bs'))"
      then obtain j where j: "j < length rest" "b' = Some (Suc i + j)" "?can (rest ! j)"
        "bs' = ?sc (rest ! j)" "?sc a < bs'"
        "\<forall>k<length rest. ?can (rest ! k) \<longrightarrow>
               ?sc (rest ! k) \<le> bs' \<and> (k < j \<longrightarrow> ?sc (rest ! k) < bs')"
        by blast
      have all: "\<forall>k<length (a # rest). ?can ((a # rest) ! k) \<longrightarrow>
              ?sc ((a # rest) ! k) \<le> bs' \<and> (k < Suc j \<longrightarrow> ?sc ((a # rest) ! k) < bs')"
        using j(5,6) by (auto simp add: nth_Cons split: nat.splits)
      have "Suc j < length (a # rest) \<and> b' = Some (i + Suc j) \<and> ?can ((a # rest) ! Suc j) \<and>
            bs' = ?sc ((a # rest) ! Suc j) \<and> bs < bs'"
        using j True by simp
      with all show ?thesis by blast
    qed
  next
    case False
    with Cons.prems
    have run: "bestDriverLoop rest (Suc i) route maxHours start (b, bs) = (b', bs')"
      by (auto simp add: Let_def split: if_splits)
    from Cons.IH [OF run] show ?thesis
    proof
      assume same: "b' = b \<and> bs' = bs \<and>
        (\<forall>j<length rest. ?can (rest ! j) \<longrightarrow> ?sc (rest ! j) \<le> bs)"
      have "\<forall>k<length (a # rest). ?can ((a # rest) ! k) \<longrightarrow> ?sc ((a # rest) ! k) \<le> bs"
        using same False by (auto simp add: nth_Cons split: nat.splits)
      with same show ?thesis by blast
    next
      assume "\<exists>j<length rest. b' = Some (Suc i + j) \<and> ?can (rest ! j) \<and>
            bs' = ?sc (rest ! j) \<and> bs < bs' \<and>
            (\<forall>k<length rest. ?can (rest ! k) \<longrightarrow>
               ?sc (rest ! k) \<le> bs' \<and> (k < j \<longrightarrow> ?sc (rest ! k) < bs'))"
      then obtain j where j: "j < length rest" "b' = Some (Suc i + j)" "?can (rest ! j)"
        "bs' = ?sc (rest ! j)" "bs < bs'"
        "\<forall>k<length rest. ?can (rest ! k) \<longrightarrow>
               ?sc (rest ! k) \<le> bs' \<and> (k < j \<longrightarrow> ?sc (rest ! k) < bs')"
        by blast
      have all: "\<forall>k<length (a # rest). ?can ((a # rest) ! k) \<longrightarrow>
              ?sc ((a # rest) ! k) \<le> bs' \<and> (k < Suc j \<longrightarrow> ?sc ((a # rest) ! k) < bs')"
        using j(5,6) False by (auto simp add: nth_Cons split: nat.splits)
      have "Suc j < length (a # rest) \<and> b' = Some (i + Suc j) \<and> ?can ((a # rest) ! Suc j) \<and>
            bs' = ?sc ((a # rest) ! Suc j) \<and> bs < bs'"
        using j by simp
      with all show ?thesis by blast
    qed
  qed
qed

lemma findBestDriver_None:
  assumes "findBestDriver as route maxHours start = None"
  shows "\<forall>j<length as. \<not> canDriverHandleOrder (as ! j) route maxHours start"
proof -
  obtain b' bs' where run: "bestDriverLoop as 0 route maxHours start (None, - 1) = (b', bs')"
    by (cases "bestDriverLoop as 0 route maxHours start (None, - 1)") 
  with assms have "b' = None" by (simp add: findBestDriver_def)
  with bestDriverLoop_spec [OF run]
  have "\<forall>j<length as. canDriverHandleOrder (as ! j) route maxHours start \<longrightarrow>
            calculateDriverScore (as ! j) route \<le> - 1"
    by auto
  moreover have "\<not> calculateDriverScore (as ! j) route \<le> - 1" for j
    using calculateDriverScore_nonneg [of "as ! j" route] by linarith
  ultimately show ?thesis by blast
qed

lemma findBestDriver_Some:
  assumes "findBestDriver as route maxHours start = Some i"
  shows "i < length as \<and> canDriverHandleOrder (as ! i) route maxHours start \<and>
         (\<forall>k<length as. canDriverHandleOrder (as ! k) route maxHours start \<longrightarrow>
            calculateDriverScore (as ! k) route \<le> calculateDriverScore (as ! i) route \<and>
            (k < i \<longrightarrow> calculateDriverScore (as ! k) route < calculateDriverScore (as ! i) route))"
proof -
  obtain b' bs' where run: "bestDriverLoop as 0 route maxHours start (None, - 1) = (b', bs')"
    by (cases "bestDriverLoop as 0 route maxHours start (None, - 1)") 
  with assms have "b' = Some i" by (simp add: findBestDriver_def)
  with bestDriverLoop_spec [OF run] show ?thesis by auto
qed

subsection \<open>The assignment loop\<close>

lemma assignOrder_cases:
  "(assignOrder routes maxHours start as order = as \<and>
      (routeMap routes (assignedRoute order) = None \<or>
       (\<exists>route. routeMap routes (assignedRoute order) = Some route \<and>
            findBestDriver as route maxHours start = None)))
   \<or> (\<exists>route i. routeMap routes (assignedRoute order) = Some route \<and>
          findBestDriver as route maxHours start = Some i \<and> i < length as \<and>
          canDriverHandleOrder (as ! i) route maxHours start \<and>
          assignOrder routes maxHours start as order = as[i := acceptOrder (as ! i) order route])"
  by (auto simp add: assignOrder_def dest: findBestDriver_Some split: option.splits)

lemma length_assignOrder [simp]:
  "length (assignOrder routes maxHours start as order) = length as"
  using assignOrder_cases [of routes maxHours start as order] by auto

text \<open>An invariant of the assignments that every acceptance keeps is kept by the loop.\<close>

lemma foldl_assignOrder_invariant:
  assumes init: "\<forall>a\<in>set as. P a"
    and step: "\<And>a order route. P a \<Longrightarrow> order \<in> set os \<Longrightarrow>
        routeMap routes (assignedRoute order) = Some route \<Longrightarrow>
        canDriverHandleOrder a route maxHours start \<Longrightarrow> P (acceptOrder a order route)"
  shows "\<forall>a\<in>set (foldl (assignOrder routes maxHours start) as os). P a"
  using init step
proof (induction os arbitrary: as)
  case Nil
  then show ?case by simp
next
  case (Cons order os)
  have "\<forall>a\<in>set (assignOrder routes maxHours start as order). P a"
    using assignOrder_cases [of routes maxHours start as order]
  proof
    assume "assignOrder routes maxHours start as order = as \<and>
      (routeMap routes (assignedRoute order) = None \<or>
       (\<exists>route. routeMap routes (assignedRoute order) = Some route \<and>
            findBestDriver as route maxHours start = None))"
    with Cons.prems(1) show ?thesis by simp
  next
    assume "\<exists>route i. routeMap routes (assignedRoute order) = Some route \<and>
          findBestDriver as route maxHours start = Some i \<and> i < length as \<and>
          canDriverHandleOrder (as ! i) route maxHours start \<and>
          assignOrder routes maxHours start as order = as[i := acceptOrder (as ! i) order route]"
    then obtain route i where r: "routeMap routes (assignedRoute order) = Some route"
      and i: "i < length as" and can: "canDriverHandleOrder (as ! i) route maxHours start"
      and eq: "assignOrder routes maxHours start as order = as[i := acceptOrder (as ! i) order route]"
      by blast
    have "P (as ! i)" using Cons.prems(1) i by simp
    then have "P (acceptOrder (as ! i) order route)"
      using Cons.prems(2) [of "as ! i" order route] r can by simp
    then show ?thesis
      using Cons.prems(1) eq by (auto dest: set_update_subset_insert [THEN subsetD])
  qed
  then have "\<forall>a\<in>set (foldl (assignOrder routes maxHours start) (assignOrder routes maxHours start as order) os). P a"
    by (rule Cons.IH) (use Cons.prems(2) in auto)
  then show ?case by simp
qed

text \<open>The order ids of all assignments together, as a multiset.\<close>

lemma mset_concat_update:
  "i < length xs \<Longrightarrow>
     mset (concat (map f (xs[i := y]))) + mset (f (xs ! i)) = mset (concat (map f xs)) + mset (f y)"
proof -
  assume i: "i < length xs"
  have a: "xs[i := y] = take i xs @ y # drop (Suc i) xs"
    using i by (rule upd_conv_take_nth_drop)
  have b: "xs = take i xs @ xs ! i # drop (Suc i) xs"
    using i by (rule id_take_nth_drop)
  from b have c: "mset (concat (map f xs)) =
      mset (concat (map f (take i xs @ xs ! i # drop (Suc i) xs)))"
    by (rule arg_cong [where f = "\<lambda>z. mset (concat (map f z))"])
  show ?thesis unfolding a c by simp
qed

lemma mset_assignOrder:
  "mset (concat (map assignedOrders (assignOrder routes maxHours start as order)))
     \<subseteq># mset (concat (map assignedOrders as)) + {#orderId order#}"
  using assignOrder_cases [of routes maxHours start as order]
proof
  assume "assignOrder routes maxHours start as order = as \<and>
      (routeMap routes (assignedRoute order) = None \<or>
       (\<exists>route. routeMap routes (assignedRoute order) = Some route \<and>
            findBestDriver as route maxHours start = None))"
  then show ?thesis by simp
next
  assume "\<exists>route i. routeMap routes (assignedRoute order) = Some route \<and>
          findBestDriver as route maxHours start = Some i \<and> i < length as \<and>
          canDriverHandleOrder (as ! i) route maxHours start \<and>
          assignOrder routes maxHours start as order = as[i := acceptOrder (as ! i) order route]"
  then obtain route i where i: "i < length as"
      and eq: "assignOrder routes maxHours start as order = as[i := acceptOrder (as ! i) order route]"
    by blast
  have "mset (concat (map assignedOrders (as[i := acceptOrder (as ! i) order route])))
           + mset (assignedOrders (as ! i))
        = mset (concat (map assignedOrders as)) + mset (assignedOrders (acceptOrder (as ! i) order route))"
    using i by (rule mset_concat_update)
  then have "mset (concat (map assignedOrders (as[i := acceptOrder (as ! i) order route])))
        = mset (concat (map assignedOrders as)) + {#orderId order#}"
    by (simp add: acceptOrder_def)
  with eq show ?thesis by simp
qed

lemma mset_foldl_assignOrder:
  "mset (concat (map assignedOrders (foldl (assignOrder routes maxHours start) as os)))
     \<subseteq># mset (concat (map assignedOrders as)) + mset (map orderId os)"
proof (induction os arbitrary: as)
  case Nil
  then show ?case by simp
next
  case (Cons order os)
  let ?as' = "assignOrder routes maxHours start as order"
  have "mset (concat (map assignedOrders (foldl (assignOrder routes maxHours start) ?as' os)))
          \<subseteq># mset (concat (map assignedOrders ?as')) + mset (map orderId os)"
    by (rule Cons.IH)
  also have "\<dots> \<subseteq># (mset (concat (map assignedOrders as)) + {#orderId order#}) + mset (map orderId os)"
    using mset_assignOrder [of routes maxHours start as order] by (simp only: subset_mset.add_right_mono)
  finally show ?case by (simp add: ac_simps)
qed

lemma concat_initAssignment:
  "concat (map assignedOrders (map initAssignment drivers)) = []"
  by (induction drivers) (simp_all add: initAssignment_def)

lemma assigned_ids_sub_orders:
  "mset (concat (map assignedOrders (assignOrdersToDrivers drivers orders routes start maxHours)))
     \<subseteq># mset (map orderId orders)"
proof -
  have "mset (map orderId (sortedOrders orders)) = mset (map orderId orders)"
    by (simp add: sortedOrders_def)
  with mset_foldl_assignOrder [of routes maxHours start "map initAssignment drivers" "sortedOrders orders"]
  show ?thesis by (simp only: assignOrdersToDrivers_def concat_initAssignment) simp
qed

lemma distinct_of_mset_sub:
  assumes "mset xs \<subseteq># mset ys" and "distinct ys"
  shows "distinct xs"
proof -
  have le: "count (mset xs) a \<le> 1" for a
  proof -
    have "count (mset xs) a \<le> count (mset ys) a"
      using assms(1) by (rule mset_subset_eq_count)
    also have "\<dots> \<le> 1" using assms(2) by (simp add: distinct_count_atmost_1)
    finally show ?thesis .
  qed
  have "count (mset xs) a = (if a \<in> set xs then 1 else 0)" for a
  proof (cases "a \<in> set xs")
    case True
    then have "0 < count (mset xs) a" by simp
    with le [of a] have "count (mset xs) a = 1" by linarith
    with True show ?thesis by simp
  next
    case False
    then show ?thesis by simp
  qed
  then show ?thesis by (simp only: distinct_count_atmost_1) simp
qed

lemma assigned_ids_distinct:
  "distinct (map orderId orders) \<Longrightarrow>
   distinct (concat (map assignedOrders (assignOrdersToDrivers drivers orders routes start maxHours)))"
  using assigned_ids_sub_orders by (rule distinct_of_mset_sub)

subsection \<open>Capacity and single assignment\<close>

lemma find_distinct_key:
  "distinct (map f xs) \<Longrightarrow> x \<in> set xs \<Longrightarrow> find (\<lambda>y. f y = f x) xs = Some x"
  by (induction xs) auto

lemma routeHours_order:
  assumes "distinct (map orderId orders)" and "order \<in> set orders"
    and "routeMap routes (assignedRoute order) = Some route"
  shows "routeHours routes orders (orderId order) = fdiv (adjustedTime route) 60"
  using assms by (simp add: routeHours_def orderOfId_def find_distinct_key)

lemma assignedHours_acceptOrder:
  assumes "distinct (map orderId orders)" and "order \<in> set orders"
    and "routeMap routes (assignedRoute order) = Some route"
  shows "assignedHours routes orders (acceptOrder a order route) =
           fadd (assignedHours routes orders a) (fdiv (adjustedTime route) 60)"
  using routeHours_order [OF assms] by (simp add: assignedHours_def acceptOrder_def)

lemma assign_capacity:
  assumes max: "0 \<le> maxHours" and ids: "distinct (map orderId orders)"
  shows "\<forall>a\<in>set (assignOrdersToDrivers drivers orders routes start maxHours).
           totalHours a = assignedHours routes orders a \<and> totalHours a \<le> maxHours"
  unfolding assignOrdersToDrivers_def
proof (rule foldl_assignOrder_invariant)
  show "\<forall>a\<in>set (map initAssignment drivers).
          totalHours a = assignedHours routes orders a \<and> totalHours a \<le> maxHours"
    using max by (auto simp add: initAssignment_def assignedHours_def)
next
  fix a order route
  assume inv: "totalHours a = assignedHours routes orders a \<and> totalHours a \<le> maxHours"
    and mem: "order \<in> set (sortedOrders orders)"
    and route: "routeMap routes (assignedRoute order) = Some route"
    and can: "canDriverHandleOrder a route maxHours start"
  from mem have mem': "order \<in> set orders" by (simp add: sortedOrders_def)
  have "totalHours (acceptOrder a order route)
          = fadd (totalHours a) (fdiv (adjustedTime route) 60)"
    by (simp add: acceptOrder_def)
  moreover from can have "fadd (totalHours a) (fdiv (adjustedTime route) 60) \<le> maxHours"
    by (simp add: canDriverHandleOrder_iff)
  ultimately show "totalHours (acceptOrder a order route)
           = assignedHours routes orders (acceptOrder a order route)
         \<and> totalHours (acceptOrder a order route) \<le> maxHours"
    using inv assignedHours_acceptOrder [OF ids mem' route, of a] by simp
qed

lemma distinct_concat_nth:
  assumes "distinct (concat xss)" and "i < j" and "j < length xss"
  shows "set (xss ! i) \<inter> set (xss ! j) = {}"
proof -
  have split: "xss = take j xss @ xss ! j # drop (Suc j) xss"
    using assms(3) by (rule id_take_nth_drop)
  have "distinct (concat (take j xss @ xss ! j # drop (Suc j) xss))"
    using assms(1) split by simp
  then have disj: "set (concat (take j xss)) \<inter> set (xss ! j) = {}"
    by auto
  have "xss ! i \<in> set (take j xss)"
    using assms(2,3) by (metis in_set_conv_nth length_take min.absorb2 less_imp_le nth_take)
  then have "set (xss ! i) \<subseteq> set (concat (take j xss))" by auto
  with disj show ?thesis by blast
qed

lemma distinct_concat_each:
  "distinct (concat xss) \<Longrightarrow> xs \<in> set xss \<Longrightarrow> distinct xs"
  by (induction xss) auto

text \<open>
  C1. Every assignment that \<open>assignOrdersToDrivers\<close> returns keeps the capacity bound: the
  hours of the routes of its assigned orders (adjusted time divided by 60), summed as the code
  sums them (in doubles, from 0, in the order of acceptance), are at most \<open>maxHoursPerDay\<close>,
  and that sum is the driver's \<open>totalHours\<close>. It is kept because a driver can handle an order
  only when the hours so far plus the hours of the route are within the bound, and an
  acceptance makes that very sum the new hours. The bound is not negative
  (\<open>validateSimulationInput\<close> has refused the others before the call) and order ids name one
  order each (the Order schema declares them unique).
\<close>

theorem capacity_bound:
  assumes "0 \<le> maxHours" and "distinct (map orderId orders)"
    and "a \<in> set (assignOrdersToDrivers drivers orders routes start maxHours)"
  shows "assignedHours routes orders a \<le> maxHours
     \<and> totalHours a = assignedHours routes orders a
     \<and> (\<forall>d route. canDriverHandleOrder d route maxHours start
            \<longleftrightarrow> fadd (totalHours d) (fdiv (adjustedTime route) 60) \<le> maxHours)
     \<and> (\<forall>d order route. totalHours (acceptOrder d order route)
            = fadd (totalHours d) (fdiv (adjustedTime route) 60))"
proof -
  from assign_capacity [OF assms(1,2), of drivers routes start] assms(3)
  have "assignedHours routes orders a \<le> maxHours"
    and "totalHours a = assignedHours routes orders a"
    by auto
  moreover have "\<forall>d order route. totalHours (acceptOrder d order route)
            = fadd (totalHours d) (fdiv (adjustedTime route) 60)"
    by (simp add: acceptOrder_def)
  ultimately show ?thesis
    by (simp only: canDriverHandleOrder_iff) simp
qed

lemma two_hours_run:
  "assignOrdersToDrivers [test_driver] [order_24, order_92, order_4]
     [route_24, route_92, route_4] 0 2 = [two_hours_assignment]"
  unfolding two_hours_assignment_def by code_simp

theorem capacity_bound_witness:
  "(0::rat) \<le> 2 \<and> distinct (map orderId [order_24, order_92, order_4])
   \<and> two_hours_assignment
       \<in> set (assignOrdersToDrivers [test_driver] [order_24, order_92, order_4]
              [route_24, route_92, route_4] 0 2)
   \<and> assignedOrders two_hours_assignment = [''O011'', ''O012'']
   \<and> assignedHours [route_24, route_92, route_4] [order_24, order_92, order_4]
        two_hours_assignment = 544184954973935 / 281474976710656
   \<and> assignedHours [route_24, route_92, route_4] [order_24, order_92, order_4]
        two_hours_assignment \<le> 2
   \<and> fadd (totalHours two_hours_assignment) (fdiv (adjustedTime route_4) 60)
       = 4503599627370497 / 2251799813685248
   \<and> \<not> canDriverHandleOrder two_hours_assignment route_4 2 0"
proof -
  have ids: "distinct (map orderId [order_24, order_92, order_4])"
    by (simp add: order_24_def order_92_def order_4_def)
  have mem: "two_hours_assignment
       \<in> set (assignOrdersToDrivers [test_driver] [order_24, order_92, order_4]
              [route_24, route_92, route_4] 0 2)"
    by (simp add: two_hours_run)
  have tot: "totalHours two_hours_assignment = 544184954973935 / 281474976710656"
    and lst: "assignedOrders two_hours_assignment = [''O011'', ''O012'']"
    by (simp_all add: two_hours_assignment_def)
  have third: "fadd (totalHours two_hours_assignment) (fdiv (adjustedTime route_4) 60)
       = 4503599627370497 / 2251799813685248"
    unfolding two_hours_assignment_def by code_simp
  note bound = capacity_bound [OF _ ids mem]
  from bound tot
  have sum: "assignedHours [route_24, route_92, route_4] [order_24, order_92, order_4]
        two_hours_assignment = 544184954973935 / 281474976710656"
    and le: "assignedHours [route_24, route_92, route_4] [order_24, order_92, order_4]
        two_hours_assignment \<le> 2"
    by simp_all
  from bound third have no: "\<not> canDriverHandleOrder two_hours_assignment route_4 2 0"
    by simp
  from ids mem lst sum le third no show ?thesis by simp
qed

text \<open>
  C5. When the order ids are distinct, no order id occurs twice among the assigned orders of
  all drivers: not twice in one driver's list, and not in the lists of two drivers.
\<close>

theorem no_double_assignment:
  assumes "distinct (map orderId orders)"
  shows "distinct (concat (map assignedOrders
            (assignOrdersToDrivers drivers orders routes start maxHours)))
     \<and> (\<forall>a\<in>set (assignOrdersToDrivers drivers orders routes start maxHours).
           distinct (assignedOrders a))
     \<and> (\<forall>i j. i < j \<and> j < length (assignOrdersToDrivers drivers orders routes start maxHours) \<longrightarrow>
           set (assignedOrders (assignOrdersToDrivers drivers orders routes start maxHours ! i))
             \<inter> set (assignedOrders (assignOrdersToDrivers drivers orders routes start maxHours ! j))
           = {})"
proof -
  let ?as = "assignOrdersToDrivers drivers orders routes start maxHours"
  have d: "distinct (concat (map assignedOrders ?as))"
    using assms by (rule assigned_ids_distinct)
  have "distinct (assignedOrders a)" if "a \<in> set ?as" for a
    using d that by (auto intro: distinct_concat_each [of "map assignedOrders ?as"])
  moreover have "set (assignedOrders (?as ! i)) \<inter> set (assignedOrders (?as ! j)) = {}"
    if "i < j" "j < length ?as" for i j
    using distinct_concat_nth [OF d, of i j] that by simp
  ultimately show ?thesis using d by blast
qed

theorem no_double_assignment_witness:
  "distinct (map orderId [test_order, second_order])
   \<and> distinct (concat (map assignedOrders
         (assignOrdersToDrivers [test_driver, tired_driver] [test_order, second_order]
            [test_route] 0 10)))
   \<and> concat (map assignedOrders
         (assignOrdersToDrivers [test_driver, tired_driver] [test_order, second_order]
            [test_route] 0 10)) = [''O002'', ''O001'']"
proof -
  have ids: "distinct (map orderId [test_order, second_order])"
    by (simp add: test_order_def second_order_def)
  have run: "concat (map assignedOrders
         (assignOrdersToDrivers [test_driver, tired_driver] [test_order, second_order]
            [test_route] 0 10)) = [''O002'', ''O001'']"
    by code_simp
  from no_double_assignment [OF ids, of "[test_driver, tired_driver]" "[test_route]" 0 10]
    ids run show ?thesis by blast
qed

subsection \<open>Deadline order, score and choice\<close>

text \<open>
  C3. The loop runs over the orders sorted by delivery deadline, ascending, orders of one
  deadline staying in their input order. The score of a driver is 100, less 30 when fatigued,
  less 5 for each order already assigned, less 0.1 times the distance so far, and at least 0,
  each step computed in doubles as the code computes it. An order with a known route goes to
  the feasible driver (hours so far plus the route's hours within the bound) of the highest
  score, the first of them in input order; with no feasible driver the assignments stay as
  they are.
\<close>

theorem deadline_order_best_driver:
  "sorted (map deliveryTimestamp (sortedOrders orders))
   \<and> mset (sortedOrders orders) = mset orders
   \<and> (\<forall>t. filter (\<lambda>order. deliveryTimestamp order = t) (sortedOrders orders)
          = filter (\<lambda>order. deliveryTimestamp order = t) orders)
   \<and> assignOrdersToDrivers drivers orders routes start maxHours
        = foldl (assignOrder routes maxHours start) (map initAssignment drivers)
            (sortedOrders orders)
   \<and> calculateDriverScore a route
        = max 0 (fsub (fsub (if isFatigued a then fsub 100 30 else 100)
                         (fmul (of_nat (length (assignedOrders a))) 5))
                   (fmul (totalDistance a) (fround (1 / 10))))
   \<and> (routeMap routes (assignedRoute order) = Some route \<longrightarrow>
        (case findBestDriver as route maxHours start of
           None \<Rightarrow>
             (\<forall>k<length as. \<not> fadd (totalHours (as ! k)) (fdiv (adjustedTime route) 60) \<le> maxHours)
             \<and> assignOrder routes maxHours start as order = as
         | Some i \<Rightarrow>
             i < length as
             \<and> fadd (totalHours (as ! i)) (fdiv (adjustedTime route) 60) \<le> maxHours
             \<and> (\<forall>k<length as. fadd (totalHours (as ! k)) (fdiv (adjustedTime route) 60) \<le> maxHours \<longrightarrow>
                   calculateDriverScore (as ! k) route \<le> calculateDriverScore (as ! i) route
                   \<and> (k < i \<longrightarrow>
                        calculateDriverScore (as ! k) route < calculateDriverScore (as ! i) route))
             \<and> assignOrder routes maxHours start as order
                  = as[i := (as ! i)\<lparr>assignedOrders := assignedOrders (as ! i) @ [orderId order],
                                     totalHours :=
                                       fadd (totalHours (as ! i)) (fdiv (adjustedTime route) 60),
                                     totalDistance :=
                                       fadd (totalDistance (as ! i)) (distance route)\<rparr>]))"
proof -
  have sorted: "sorted (map deliveryTimestamp (sortedOrders orders))"
    by (simp add: sortedOrders_def)
  have perm: "mset (sortedOrders orders) = mset orders"
    by (simp add: sortedOrders_def)
  have stable: "\<forall>t. filter (\<lambda>order. deliveryTimestamp order = t) (sortedOrders orders)
          = filter (\<lambda>order. deliveryTimestamp order = t) orders"
    by (simp add: sortedOrders_def sort_key_stable)
  have choice: "(case findBestDriver as route maxHours start of
           None \<Rightarrow>
             (\<forall>k<length as. \<not> fadd (totalHours (as ! k)) (fdiv (adjustedTime route) 60) \<le> maxHours)
             \<and> assignOrder routes maxHours start as order = as
         | Some i \<Rightarrow>
             i < length as
             \<and> fadd (totalHours (as ! i)) (fdiv (adjustedTime route) 60) \<le> maxHours
             \<and> (\<forall>k<length as. fadd (totalHours (as ! k)) (fdiv (adjustedTime route) 60) \<le> maxHours \<longrightarrow>
                   calculateDriverScore (as ! k) route \<le> calculateDriverScore (as ! i) route
                   \<and> (k < i \<longrightarrow>
                        calculateDriverScore (as ! k) route < calculateDriverScore (as ! i) route))
             \<and> assignOrder routes maxHours start as order
                  = as[i := (as ! i)\<lparr>assignedOrders := assignedOrders (as ! i) @ [orderId order],
                                     totalHours :=
                                       fadd (totalHours (as ! i)) (fdiv (adjustedTime route) 60),
                                     totalDistance :=
                                       fadd (totalDistance (as ! i)) (distance route)\<rparr>])"
    if route: "routeMap routes (assignedRoute order) = Some route"
  proof (cases "findBestDriver as route maxHours start")
    case None
    from findBestDriver_None [OF None] None route show ?thesis
      by (simp add: canDriverHandleOrder_iff assignOrder_def)
  next
    case (Some i)
    from findBestDriver_Some [OF Some] Some route show ?thesis
      by (simp add: canDriverHandleOrder_iff assignOrder_def acceptOrder_def)
  qed
  show ?thesis
    using sorted perm stable choice
    by (simp only: calculateDriverScore_eq assignOrdersToDrivers_def) simp
qed

lemma close_scores:
  "calculateDriverScore busy_assignment test_route = 2237726064849715 / 35184372088832"
  "calculateDriverScore tired_assignment test_route = 8950904259398861 / 140737488355328"
  "findBestDriver [busy_assignment, tired_assignment] test_route 10 0 = Some 1"
  "fadd (totalHours busy_assignment) (fdiv (adjustedTime test_route) 60) \<le> 10"
  unfolding busy_assignment_def tired_assignment_def by code_simp+

theorem deadline_order_best_driver_witness:
  "routeMap [test_route] (assignedRoute test_order) = Some test_route
   \<and> sortedOrders [test_order, second_order] = [second_order, test_order]
   \<and> findBestDriver [busy_assignment, tired_assignment] test_route 10 0 = Some 1
   \<and> calculateDriverScore busy_assignment test_route = 2237726064849715 / 35184372088832
   \<and> calculateDriverScore tired_assignment test_route = 8950904259398861 / 140737488355328
   \<and> calculateDriverScore ([busy_assignment, tired_assignment] ! 0) test_route
       < calculateDriverScore ([busy_assignment, tired_assignment] ! 1) test_route
   \<and> map assignedOrders
        (assignOrder [test_route] 10 0 [busy_assignment, tired_assignment] test_order)
       = [[''O001'', ''O002''], [''O003'', ''O001'']]"
proof -
  have route: "routeMap [test_route] (assignedRoute test_order) = Some test_route"
    by (simp add: routeMap_def test_route_def test_order_def)
  have sorted: "sortedOrders [test_order, second_order] = [second_order, test_order]"
    by (simp add: sortedOrders_def test_order_def second_order_def)
  note best = close_scores(3)
  have len: "(0::nat) < 1 \<and> 0 < length [busy_assignment, tired_assignment]"
    by simp
  have feasible: "fadd (totalHours ([busy_assignment, tired_assignment] ! 0))
       (fdiv (adjustedTime test_route) 60) \<le> 10"
    using close_scores(4) by simp
  have ids: "orderId test_order = ''O001''"
    by (simp add: test_order_def)
  note choice = deadline_order_best_driver [of "[test_order, second_order]"
      "[tired_driver, test_driver]" "[test_route]" 0 10 "initAssignment test_driver" test_route
      test_order "[busy_assignment, tired_assignment]",
      THEN conjunct2, THEN conjunct2, THEN conjunct2, THEN conjunct2, THEN conjunct2,
      THEN mp, OF route, unfolded best option.case]
  from choice len feasible
  have less: "calculateDriverScore ([busy_assignment, tired_assignment] ! 0) test_route
       < calculateDriverScore ([busy_assignment, tired_assignment] ! 1) test_route"
    by blast
  from choice
  have "assignOrder [test_route] 10 0 [busy_assignment, tired_assignment] test_order
            = [busy_assignment, tired_assignment]
                [1 := ([busy_assignment, tired_assignment] ! 1)
                   \<lparr>assignedOrders :=
                      assignedOrders ([busy_assignment, tired_assignment] ! 1)
                        @ [orderId test_order],
                    totalHours :=
                      fadd (totalHours ([busy_assignment, tired_assignment] ! 1))
                        (fdiv (adjustedTime test_route) 60),
                    totalDistance :=
                      fadd (totalDistance ([busy_assignment, tired_assignment] ! 1))
                        (distance test_route)\<rparr>]"
    by blast
  then have step: "map assignedOrders
        (assignOrder [test_route] 10 0 [busy_assignment, tired_assignment] test_order)
       = [[''O001'', ''O002''], [''O003'', ''O001'']]"
    using ids by (simp add: busy_assignment_def tired_assignment_def)
  from route sorted best close_scores(1,2) less step show ?thesis by blast
qed

subsection \<open>Results of a run\<close>

lemma mapThrowing_Inr:
  "mapThrowing f xs = Inr ys \<Longrightarrow>
     length ys = length xs \<and> (\<forall>i<length xs. f (xs ! i) = Inr (ys ! i))"
proof (induction xs arbitrary: ys)
  case Nil
  then show ?case by simp
next
  case (Cons x xs)
  from Cons.prems obtain y ys' where y: "f x = Inr y" and ys': "mapThrowing f xs = Inr ys'"
    and ys: "ys = y # ys'"
    by (auto split: sum.splits)
  from Cons.IH [OF ys'] y ys show ?case
    by (auto simp add: nth_Cons split: nat.splits)
qed

lemma mapThrowing_Inl:
  "x \<in> set xs \<Longrightarrow> f x = Inl e \<Longrightarrow> \<exists>e'. mapThrowing f xs = Inl e'"
  by (induction xs) (auto split: sum.splits)

lemma mapThrowing_Inl_source:
  "mapThrowing f xs = Inl e \<Longrightarrow> \<exists>x\<in>set xs. f x = Inl e"
  by (induction xs) (auto split: sum.splits)

lemma runSimulationBody_Inr:
  assumes "runSimulationBody c input drivers routes orders = Inr res"
  shows "validateSimulationInput input = Inr () \<and> drivers \<noteq> [] \<and> orders \<noteq> []
     \<and> driverAssignments res
         = assignOrdersToDrivers drivers orders routes (simulationStart c input)
             (maxHoursPerDay input)
     \<and> calculateOrderResults c orders routes (driverAssignments res) (simulationStart c input)
         = Inr (orderResults res)"
  using assms
  by (auto simp add: runSimulationBody_def Let_def split: sum.splits if_splits)

lemma runSimulation_Inr:
  assumes "runSimulation c input drivers routes orders = Inr res"
  shows "validateSimulationInput input = Inr () \<and> drivers \<noteq> [] \<and> orders \<noteq> []
     \<and> driverAssignments res
         = assignOrdersToDrivers drivers orders routes (simulationStart c input)
             (maxHoursPerDay input)
     \<and> calculateOrderResults c orders routes (driverAssignments res) (simulationStart c input)
         = Inr (orderResults res)"
proof -
  from assms have "runSimulationBody c input drivers routes orders = Inr res"
    by (simp add: runSimulation_def split: sum.splits)
  then show ?thesis by (rule runSimulationBody_Inr)
qed

lemma calculateOrderResults_nth:
  assumes "calculateOrderResults c orders routes as start = Inr results"
    and "i < length orders"
  shows "length results = length orders
     \<and> orderResult c routes as start (orders ! i) = Inr (results ! i)"
  using mapThrowing_Inr [of "orderResult c routes as start" orders results] assms
  by (simp add: calculateOrderResults_def)

text \<open>The route that \<open>routeMap\<close> gives for an id is a route of the list with that id: the
  last one, should several have it.\<close>

lemma map_of_rev_last:
  "map_of (rev (map (\<lambda>r. (f r, r)) xs)) k = Some r \<longleftrightarrow>
     filter (\<lambda>r. f r = k) xs \<noteq> [] \<and> r = last (filter (\<lambda>r. f r = k) xs)"
proof (induction xs rule: rev_induct)
  case Nil
  then show ?case by simp
next
  case (snoc x xs)
  then show ?case by (auto simp add: map_add_Some_iff)
qed

lemma routeMap_Some:
  "routeMap routes k = Some route \<longleftrightarrow>
     filter (\<lambda>r. routeId r = k) routes \<noteq> []
     \<and> route = last (filter (\<lambda>r. routeId r = k) routes)"
  unfolding routeMap_def by (rule map_of_rev_last)

lemma routeMap_Some_route:
  assumes "routeMap routes k = Some route"
  shows "route \<in> set routes \<and> routeId route = k"
proof -
  from assms have ne: "filter (\<lambda>r. routeId r = k) routes \<noteq> []"
    and eq: "route = last (filter (\<lambda>r. routeId r = k) routes)"
    by (simp_all add: routeMap_Some)
  from ne have "last (filter (\<lambda>r. routeId r = k) routes)
      \<in> set (filter (\<lambda>r. routeId r = k) routes)"
    by (rule last_in_set)
  with eq show ?thesis by simp
qed

lemma orderResult_Inr:
  assumes "orderResult c routes as start order = Inr r"
  shows "\<exists>route. routeMap routes (assignedRoute order) = Some route
     \<and> or_orderId r = orderId order \<and> or_routeId r = assignedRoute order
     \<and> orderValue r = order_value order
     \<and> assignedDriver r =
          (case find (\<lambda>d. orderId order \<in> set (assignedOrders d)) as of
             None \<Rightarrow> ''Unassigned''
           | Some d \<Rightarrow> if driverName d = [] then ''Unassigned'' else driverName d)
     \<and> (deliveryStatus r = OnTime) =
          (calculateDeliveryTime c start route
             (case find (\<lambda>d. orderId order \<in> set (assignedOrders d)) as of
                None \<Rightarrow> False | Some d \<Rightarrow> isFatigued d)
           \<le> deliveryTimestamp order)
     \<and> or_fuelCost r = fuelCost route
     \<and> penalty r = (if deliveryStatus r = OnTime then 0 else 50)
     \<and> bonus r = (if order_value order > 1000 \<and> deliveryStatus r = OnTime
                  then fmul (order_value order) (fround (1 / 10)) else 0)
     \<and> profit r = fsub (fsub (fadd (order_value order) (bonus r)) (penalty r)) (or_fuelCost r)"
proof (cases "routeMap routes (assignedRoute order)")
  case None
  with assms show ?thesis by (simp add: orderResult_def)
next
  case (Some route)
  show ?thesis
  proof (cases "calculateDeliveryTime c start route
             (case find (\<lambda>d. orderId order \<in> set (assignedOrders d)) as of
                None \<Rightarrow> False | Some d \<Rightarrow> isFatigued d)
           \<le> deliveryTimestamp order")
    case True
    with assms Some show ?thesis by (auto simp add: orderResult_def Let_def)
  next
    case False
    with assms Some show ?thesis by (auto simp add: orderResult_def Let_def)
  qed
qed

lemma orderResult_Inl_iff:
  "(\<exists>e. orderResult c routes as start order = Inl e)
     \<longleftrightarrow> assignedRoute order \<notin> routeId ` set routes"
  by (cases "routeMap routes (assignedRoute order)")
     (auto simp add: orderResult_def Let_def routeMap_None_iff [symmetric])

lemma simulation_order_result:
  assumes "runSimulation c input drivers routes orders = Inr res" and "i < length orders"
  shows "length (orderResults res) = length orders
     \<and> orderResult c routes (driverAssignments res) (simulationStart c input) (orders ! i)
         = Inr (orderResults res ! i)"
proof -
  from runSimulation_Inr [OF assms(1)]
  have "calculateOrderResults c orders routes (driverAssignments res) (simulationStart c input)
         = Inr (orderResults res)"
    by blast
  then show ?thesis using assms(2) by (rule calculateOrderResults_nth)
qed

text \<open>
  C2. In the result of a run, the entry of every order has penalty 50 when the delivery is late
  and 0 when it is on time, bonus the order's value times 0.1 when that value exceeds 1000
  and the delivery is on time and 0 otherwise, and profit value plus bonus less penalty less
  fuel cost, each operation computed in doubles as the code computes it. The fuel cost is that
  of the order's route: the route of the run (the last one, should several share the id)
  whose id is the order's route id. On time means that the projected delivery is not after the
  order's deadline.
\<close>

theorem order_economics:
  assumes "runSimulation c input drivers routes orders = Inr res" and "i < length orders"
  shows "length (orderResults res) = length orders
     \<and> (\<exists>route. routeMap routes (assignedRoute (orders ! i)) = Some route
          \<and> route \<in> set routes \<and> routeId route = assignedRoute (orders ! i)
          \<and> route = last (filter (\<lambda>r. routeId r = assignedRoute (orders ! i)) routes)
          \<and> or_orderId (orderResults res ! i) = orderId (orders ! i)
          \<and> (deliveryStatus (orderResults res ! i) = OnTime) =
               (calculateDeliveryTime c (simulationStart c input) route
                  (case find (\<lambda>d. orderId (orders ! i) \<in> set (assignedOrders d))
                          (driverAssignments res) of
                     None \<Rightarrow> False | Some d \<Rightarrow> isFatigued d)
                \<le> deliveryTimestamp (orders ! i))
          \<and> penalty (orderResults res ! i) =
                (if deliveryStatus (orderResults res ! i) = OnTime then 0 else 50)
          \<and> bonus (orderResults res ! i) =
                (if order_value (orders ! i) > 1000 \<and> deliveryStatus (orderResults res ! i) = OnTime
                 then fmul (order_value (orders ! i)) (fround (1 / 10)) else 0)
          \<and> or_fuelCost (orderResults res ! i) = fuelCost route
          \<and> profit (orderResults res ! i) =
                fsub (fsub (fadd (order_value (orders ! i)) (bonus (orderResults res ! i)))
                        (penalty (orderResults res ! i)))
                  (fuelCost route))"
proof -
  from simulation_order_result [OF assms]
  have len: "length (orderResults res) = length orders"
    and r: "orderResult c routes (driverAssignments res) (simulationStart c input) (orders ! i)
         = Inr (orderResults res ! i)"
    by simp_all
  from orderResult_Inr [OF r] obtain route where
    route: "routeMap routes (assignedRoute (orders ! i)) = Some route"
    and fields: "or_orderId (orderResults res ! i) = orderId (orders ! i)
     \<and> (deliveryStatus (orderResults res ! i) = OnTime) =
          (calculateDeliveryTime c (simulationStart c input) route
             (case find (\<lambda>d. orderId (orders ! i) \<in> set (assignedOrders d))
                     (driverAssignments res) of
                None \<Rightarrow> False | Some d \<Rightarrow> isFatigued d)
           \<le> deliveryTimestamp (orders ! i))
     \<and> penalty (orderResults res ! i) =
           (if deliveryStatus (orderResults res ! i) = OnTime then 0 else 50)
     \<and> bonus (orderResults res ! i) =
           (if order_value (orders ! i) > 1000 \<and> deliveryStatus (orderResults res ! i) = OnTime
            then fmul (order_value (orders ! i)) (fround (1 / 10)) else 0)
     \<and> or_fuelCost (orderResults res ! i) = fuelCost route
     \<and> profit (orderResults res ! i) =
           fsub (fsub (fadd (order_value (orders ! i)) (bonus (orderResults res ! i)))
                   (penalty (orderResults res ! i)))
             (fuelCost route)"
    by auto
  from route have "route \<in> set routes \<and> routeId route = assignedRoute (orders ! i)"
    by (rule routeMap_Some_route)
  moreover from route
  have "route = last (filter (\<lambda>r. routeId r = assignedRoute (orders ! i)) routes)"
    by (simp add: routeMap_Some)
  ultimately show ?thesis using len route fields by blast
qed

lemma test_run:
  "runSimulation test_clock test_input [test_driver] [test_route] [test_order] = Inr test_result"
  unfolding test_result_def by code_simp

lemma odd_run:
  "runSimulation test_clock test_input [test_driver] [long_route, test_route] [odd_order]
     = Inr odd_result"
  unfolding odd_result_def by code_simp

theorem order_economics_witness:
  "runSimulation test_clock test_input [test_driver] [long_route, test_route] [odd_order]
     = Inr odd_result
   \<and> (0::nat) < length [odd_order]
   \<and> routeMap [long_route, test_route] (assignedRoute odd_order) = Some test_route
   \<and> bonus (orderResults odd_result ! 0) = 7043911292184167 / 70368744177664
   \<and> bonus (orderResults odd_result ! 0) = fmul 1001 (fround (1 / 10))
   \<and> profit (orderResults odd_result ! 0) = 2256417762521907 / 2199023255552
   \<and> profit (orderResults odd_result ! 0)
       = fsub (fsub (fadd 1001 (7043911292184167 / 70368744177664)) 0) (fuelCost test_route)"
proof -
  have i: "(0::nat) < length [odd_order]" by simp
  have route: "routeMap [long_route, test_route] (assignedRoute odd_order) = Some test_route"
    by (simp add: routeMap_def test_route_def long_route_def odd_order_def)
  have res: "bonus (orderResults odd_result ! 0) = 7043911292184167 / 70368744177664"
    "penalty (orderResults odd_result ! 0) = 0"
    "profit (orderResults odd_result ! 0) = 2256417762521907 / 2199023255552"
    "deliveryStatus (orderResults odd_result ! 0) = OnTime"
    by (simp_all add: odd_result_def)
  have val: "order_value ([odd_order] ! 0) = 1001"
    by (simp add: odd_order_def)
  from order_economics [OF odd_run i] route
  have "bonus (orderResults odd_result ! 0) =
          (if order_value ([odd_order] ! 0) > 1000
              \<and> deliveryStatus (orderResults odd_result ! 0) = OnTime
           then fmul (order_value ([odd_order] ! 0)) (fround (1 / 10)) else 0)"
    and "profit (orderResults odd_result ! 0) =
          fsub (fsub (fadd (order_value ([odd_order] ! 0)) (bonus (orderResults odd_result ! 0)))
                  (penalty (orderResults odd_result ! 0)))
            (fuelCost test_route)"
    by auto
  then have "bonus (orderResults odd_result ! 0) = fmul 1001 (fround (1 / 10))"
    and "profit (orderResults odd_result ! 0)
       = fsub (fsub (fadd 1001 (7043911292184167 / 70368744177664)) 0) (fuelCost test_route)"
    unfolding val res by simp_all
  with odd_run i route res show ?thesis by blast
qed

lemma map_update_same:
  "i < length xs \<Longrightarrow> f y = f (xs ! i) \<Longrightarrow> map f (xs[i := y]) = map f xs"
  by (simp add: map_update list_update_same_conv)

lemma assignOrder_keeps_drivers:
  "map driverId (assignOrder routes maxHours start as order) = map driverId as
   \<and> map driverName (assignOrder routes maxHours start as order) = map driverName as
   \<and> map isFatigued (assignOrder routes maxHours start as order) = map isFatigued as"
  using assignOrder_cases [of routes maxHours start as order]
  by (auto simp add: map_update_same acceptOrder_def)

lemma foldl_assignOrder_keeps_drivers:
  "map driverId (foldl (assignOrder routes maxHours start) as os) = map driverId as
   \<and> map driverName (foldl (assignOrder routes maxHours start) as os) = map driverName as
   \<and> map isFatigued (foldl (assignOrder routes maxHours start) as os) = map isFatigued as"
  by (induction os arbitrary: as) (simp_all add: assignOrder_keeps_drivers)

lemma assignOrdersToDrivers_drivers:
  "map driverId (assignOrdersToDrivers drivers orders routes start maxHours)
      = map driver_id drivers
   \<and> map driverName (assignOrdersToDrivers drivers orders routes start maxHours)
      = map driver_name drivers
   \<and> map isFatigued (assignOrdersToDrivers drivers orders routes start maxHours)
      = map (\<lambda>d. currentShiftHours d > 8) drivers"
  by (simp add: assignOrdersToDrivers_def foldl_assignOrder_keeps_drivers initAssignment_def
        comp_def)

text \<open>
  C8, as the code has it. The assigned-driver field of an order's result is the name, not the
  id, of the first assignment whose list holds the order's id, and the string
  \<open>Unassigned\<close> when no list holds it (or when that name is empty); the names and ids of the
  assignments are those of the drivers, in their order.
\<close>

theorem assigned_driver_name:
  assumes "runSimulation c input drivers routes orders = Inr res" and "i < length orders"
  shows "assignedDriver (orderResults res ! i) =
           (case find (\<lambda>d. orderId (orders ! i) \<in> set (assignedOrders d))
                   (driverAssignments res) of
              None \<Rightarrow> ''Unassigned''
            | Some d \<Rightarrow> if driverName d = [] then ''Unassigned'' else driverName d)
     \<and> map driverName (driverAssignments res) = map driver_name drivers
     \<and> map driverId (driverAssignments res) = map driver_id drivers"
proof -
  from simulation_order_result [OF assms]
  have "orderResult c routes (driverAssignments res) (simulationStart c input) (orders ! i)
         = Inr (orderResults res ! i)"
    by simp
  from orderResult_Inr [OF this]
  have "assignedDriver (orderResults res ! i) =
           (case find (\<lambda>d. orderId (orders ! i) \<in> set (assignedOrders d))
                   (driverAssignments res) of
              None \<Rightarrow> ''Unassigned''
            | Some d \<Rightarrow> if driverName d = [] then ''Unassigned'' else driverName d)"
    by blast
  moreover from runSimulation_Inr [OF assms(1)]
  have "driverAssignments res
         = assignOrdersToDrivers drivers orders routes (simulationStart c input)
             (maxHoursPerDay input)"
    by blast
  ultimately show ?thesis
    by (simp add: assignOrdersToDrivers_drivers)
qed

theorem assigned_driver_name_witness:
  "runSimulation test_clock test_input [test_driver] [test_route] [test_order] = Inr test_result
   \<and> (0::nat) < length [test_order]
   \<and> assignedDriver (orderResults test_result ! 0) = ''Test Driver''
   \<and> map driverName (driverAssignments test_result) = map driver_name [test_driver]"
proof -
  have i: "(0::nat) < length [test_order]" by simp
  from assigned_driver_name [OF test_run i]
  have names: "map driverName (driverAssignments test_result) = map driver_name [test_driver]"
    by blast
  have "assignedDriver (orderResults test_result ! 0) = ''Test Driver''"
    by (simp add: test_result_def)
  with test_run i names show ?thesis by blast
qed

lemma unassigned_run:
  "runSimulation test_clock (test_input\<lparr>maxHoursPerDay := 1\<rparr>) [test_driver] [long_route]
       [test_order] = Inr unassigned_result"
  unfolding unassigned_result_def by code_simp

text \<open>C8 as stated fails: the field holds the driver's name where the claim has the id, and
  the string for an order no driver took is capitalised.\<close>

theorem assigned_driver_id_counterexample:
  "runSimulation test_clock test_input [test_driver] [test_route] [test_order] = Inr test_result
   \<and> map driverId (driverAssignments test_result) = [''driver1'']
   \<and> map assignedOrders (driverAssignments test_result) = [[''O001'']]
   \<and> map assignedDriver (orderResults test_result) \<noteq> [''driver1'']
   \<and> runSimulation test_clock (test_input\<lparr>maxHoursPerDay := 1\<rparr>) [test_driver] [long_route]
         [test_order] = Inr unassigned_result
   \<and> map assignedOrders (driverAssignments unassigned_result) = [[]]
   \<and> map assignedDriver (orderResults unassigned_result) \<noteq> [''unassigned'']"
  using test_run unassigned_run by (simp add: test_result_def unassigned_result_def)

subsection \<open>Runs that fail\<close>

lemma calculateOrderResults_unknown_route:
  assumes "order \<in> set orders" and "assignedRoute order \<notin> routeId ` set routes"
  shows "\<exists>e. calculateOrderResults c orders routes as start = Inl e"
proof -
  from assms(2) obtain e where "orderResult c routes as start order = Inl e"
    using orderResult_Inl_iff [of c routes as start order] by blast
  with assms(1) show ?thesis
    unfolding calculateOrderResults_def by (rule mapThrowing_Inl)
qed

text \<open>
  C4. A run with no driver, with no pending order, or with an order whose route id is not
  among the routes ends in an error and returns no result. Such an order leaves the
  assignments as they are when the loop comes to it, and makes the computation of the
  per-order results fail.
\<close>

theorem not_found_aborts_run:
  "(drivers = [] \<or> orders = [] \<or> (\<exists>order\<in>set orders. assignedRoute order \<notin> routeId ` set routes)
      \<longrightarrow> (\<exists>e. runSimulation c input drivers routes orders = Inl e))
   \<and> (validateSimulationInput input = Inr () \<and> drivers = [] \<longrightarrow>
        runSimulation c input drivers routes orders
          = Inl ''Simulation failed: No drivers available for simulation'')
   \<and> (validateSimulationInput input = Inr () \<and> drivers \<noteq> [] \<and> orders = [] \<longrightarrow>
        runSimulation c input drivers routes orders
          = Inl ''Simulation failed: No pending orders for simulation'')
   \<and> (assignedRoute order \<notin> routeId ` set routes \<longrightarrow>
        assignOrder routes maxHours start as order = as
        \<and> orderResult c routes as' start' order
            = Inl (''Route '' @ assignedRoute order @ '' not found'')
        \<and> (order \<in> set orders \<longrightarrow>
              (\<exists>e. calculateOrderResults c orders routes as' start' = Inl e)))"
proof -
  have fails: "\<exists>e. runSimulation c input drivers routes orders = Inl e"
    if "drivers = [] \<or> orders = [] \<or>
        (\<exists>order\<in>set orders. assignedRoute order \<notin> routeId ` set routes)"
  proof (cases "runSimulation c input drivers routes orders")
    case (Inl e)
    then show ?thesis by blast
  next
    case (Inr res)
    from runSimulation_Inr [OF Inr]
    have ne: "drivers \<noteq> [] \<and> orders \<noteq> []"
      and ok: "calculateOrderResults c orders routes (driverAssignments res)
                 (simulationStart c input) = Inr (orderResults res)"
      by blast+
    from that ne obtain order where "order \<in> set orders"
      and "assignedRoute order \<notin> routeId ` set routes"
      by blast
    from calculateOrderResults_unknown_route [OF this, of c "driverAssignments res"
        "simulationStart c input"] ok
    show ?thesis by simp
  qed
  have nodrivers: "runSimulation c input drivers routes orders
          = Inl ''Simulation failed: No drivers available for simulation''"
    if "validateSimulationInput input = Inr () \<and> drivers = []"
    using that by (simp add: runSimulation_def runSimulationBody_def)
  have noorders: "runSimulation c input drivers routes orders
          = Inl ''Simulation failed: No pending orders for simulation''"
    if "validateSimulationInput input = Inr () \<and> drivers \<noteq> [] \<and> orders = []"
    using that by (simp add: runSimulation_def runSimulationBody_def)
  have skipped: "assignOrder routes maxHours start as order = as
        \<and> orderResult c routes as' start' order
            = Inl (''Route '' @ assignedRoute order @ '' not found'')
        \<and> (order \<in> set orders \<longrightarrow>
              (\<exists>e. calculateOrderResults c orders routes as' start' = Inl e))"
    if unknown: "assignedRoute order \<notin> routeId ` set routes"
  proof -
    from unknown have none: "routeMap routes (assignedRoute order) = None"
      by (simp add: routeMap_None_iff)
    then have "assignOrder routes maxHours start as order = as"
      by (simp add: assignOrder_def)
    moreover from none have "orderResult c routes as' start' order
            = Inl (''Route '' @ assignedRoute order @ '' not found'')"
      by (simp add: orderResult_def)
    moreover have "\<exists>e. calculateOrderResults c orders routes as' start' = Inl e"
      if "order \<in> set orders"
      using that unknown by (rule calculateOrderResults_unknown_route)
    ultimately show ?thesis by blast
  qed
  from fails nodrivers noorders skipped show ?thesis by blast
qed

theorem not_found_aborts_run_witness:
  "lost_order \<in> set [test_order, lost_order]
   \<and> assignedRoute lost_order \<notin> routeId ` set [test_route]
   \<and> runSimulation test_clock test_input [test_driver] [test_route] [test_order, lost_order]
       = Inl ''Simulation failed: Route R999 not found''
   \<and> assignOrder [test_route] 10 0 (map initAssignment [test_driver]) lost_order
       = map initAssignment [test_driver]
   \<and> validateSimulationInput test_input = Inr ()
   \<and> runSimulation test_clock test_input [] [test_route] [test_order]
       = Inl ''Simulation failed: No drivers available for simulation''
   \<and> runSimulation test_clock test_input [test_driver] [test_route] []
       = Inl ''Simulation failed: No pending orders for simulation''"
proof -
  have mem: "lost_order \<in> set [test_order, lost_order]" by simp
  have unknown: "assignedRoute lost_order \<notin> routeId ` set [test_route]"
    by (simp add: lost_order_def test_route_def)
  have valid: "validateSimulationInput test_input = Inr ()"
    by code_simp
  have run: "runSimulation test_clock test_input [test_driver] [test_route]
       [test_order, lost_order] = Inl ''Simulation failed: Route R999 not found''"
    by code_simp
  note T = not_found_aborts_run [where routes = "[test_route]" and input = test_input
      and order = lost_order and maxHours = 10 and start = 0
      and as = "map initAssignment [test_driver]" and c = test_clock]
  from T [where drivers = "[test_driver]" and orders = "[test_order, lost_order]"] unknown
  have skip: "assignOrder [test_route] 10 0 (map initAssignment [test_driver]) lost_order
       = map initAssignment [test_driver]"
    by blast
  from T [where drivers = "[]" and orders = "[test_order]"] valid
  have nodrivers: "runSimulation test_clock test_input [] [test_route] [test_order]
       = Inl ''Simulation failed: No drivers available for simulation''"
    by blast
  from T [where drivers = "[test_driver]" and orders = "[]"] valid
  have noorders: "runSimulation test_clock test_input [test_driver] [test_route] []
       = Inl ''Simulation failed: No pending orders for simulation''"
    by blast
  from mem unknown run skip valid nodrivers noorders show ?thesis by blast
qed

subsection \<open>Projected delivery time\<close>

text \<open>
  C7 fails on the code. \<open>calculateDeliveryTime\<close> multiplies the adjusted time of a fatigued
  driver by 1.3 and hands the product to \<open>setMinutes\<close>, which drops the fraction of a minute.
  On the route of 54 minutes the product is 70.2 minutes and the projected delivery 70 minutes
  after the start, not 1.3 times the 54 minutes of a driver who is not fatigued; on a route of
  3 minutes the product is 3.9000000000000004 and the fatigued driver is projected at the same
  minute as the other (here on a machine whose local time is UTC, the start at 08:00 of
  15 January 2024).
\<close>

theorem fatigued_delivery_drops_fraction:
  "adjustedTime medium_route = 54
   \<and> fmul (adjustedTime medium_route) (fround (13 / 10)) = 4939885841272013 / 70368744177664
   \<and> calculateDeliveryTime test_clock 1705305600000 medium_route False
       = 1705305600000 + 54 * 60000
   \<and> calculateDeliveryTime test_clock 1705305600000 medium_route True
       = 1705305600000 + 70 * 60000
   \<and> rat_of_int (calculateDeliveryTime test_clock 1705305600000 medium_route True
         - 1705305600000)
       < (13 / 10) * rat_of_int (calculateDeliveryTime test_clock 1705305600000 medium_route False
             - 1705305600000)
   \<and> adjustedTime short_route = 3
   \<and> fmul (adjustedTime short_route) (fround (13 / 10)) = 2195504818343117 / 562949953421312
   \<and> calculateDeliveryTime test_clock 1705305600000 short_route True
       = calculateDeliveryTime test_clock 1705305600000 short_route False"
proof -
  have p: "fmul 54 (fround (13 / 10)) = 4939885841272013 / 70368744177664"
    "fmul 3 (fround (13 / 10)) = 2195504818343117 / 562949953421312"
    by code_simp+
  have m: "adjustedTime medium_route = 54"
    "calculateDeliveryTime test_clock 1705305600000 medium_route False = 1705308840000"
    "calculateDeliveryTime test_clock 1705305600000 medium_route True = 1705309800000"
    by code_simp+
  have s: "adjustedTime short_route = 3"
    "calculateDeliveryTime test_clock 1705305600000 short_route True = 1705305780000"
    "calculateDeliveryTime test_clock 1705305600000 short_route False = 1705305780000"
    by code_simp+
  show ?thesis unfolding m s p by simp
qed

subsection \<open>The clock\<close>

lemma next_day_run:
  "runSimulation next_day_clock test_input [test_driver] [test_route] [test_order]
     = Inr next_day_result"
  unfolding next_day_result_def by code_simp

text \<open>
  C6 fails on the code. The start of the run is today's date at the given time of day, read
  from the clock of the machine. The data of the repository's own test gives an order on time
  with its bonus on 15 January 2024 and the same order late with a penalty one day later.
\<close>

theorem run_depends_on_date:
  "runSimulation test_clock test_input [test_driver] [test_route] [test_order]
     = Inr test_result
   \<and> runSimulation next_day_clock test_input [test_driver] [test_route] [test_order]
     = Inr next_day_result
   \<and> map deliveryStatus (orderResults test_result) = [OnTime]
   \<and> map deliveryStatus (orderResults next_day_result) = [Late]
   \<and> map bonus (orderResults test_result) = [150]
   \<and> map bonus (orderResults next_day_result) = [0]"
  using test_run next_day_run by (simp add: test_result_def next_day_result_def)

subsection \<open>Validation of the input\<close>

lemma validateSimulationInput_Inl_iff:
  "(\<exists>e. validateSimulationInput input = Inl e) \<longleftrightarrow>
     availableDrivers input \<le> 0 \<or> maxHoursPerDay input \<le> 0 \<or> 24 < maxHoursPerDay input
     \<or> \<not> timeRegex (startTime input)"
  by (simp add: validateSimulationInput_def)

lemma validateSimulationInput_messages:
  "validateSimulationInput input = Inl e \<Longrightarrow> e \<in> set validationMessages"
  by (auto simp add: validateSimulationInput_def validationMessages_def split: if_splits)

lemma runSimulationBody_Inl_cases:
  assumes "runSimulationBody c input drivers routes orders = Inl e"
  shows "validateSimulationInput input = Inl e
     \<or> (validateSimulationInput input = Inr () \<and> e \<notin> set validationMessages)"
proof (cases "validateSimulationInput input")
  case (Inl e')
  with assms show ?thesis by (simp add: runSimulationBody_def)
next
  case (Inr u)
  have "e \<notin> set validationMessages"
  proof (cases "drivers = [] \<or> orders = []")
    case True
    with assms Inr have "e = ''No drivers available for simulation''
        \<or> e = ''No pending orders for simulation''"
      by (auto simp add: runSimulationBody_def split: if_splits)
    then show ?thesis by (auto simp add: validationMessages_def)
  next
    case False
    with assms Inr
    have "calculateOrderResults c orders routes
            (assignOrdersToDrivers drivers orders routes (simulationStart c input)
               (maxHoursPerDay input))
            (simulationStart c input) = Inl e"
      by (simp add: runSimulationBody_def Let_def split: sum.splits)
    then obtain order where
      "orderResult c routes
         (assignOrdersToDrivers drivers orders routes (simulationStart c input)
            (maxHoursPerDay input))
         (simulationStart c input) order = Inl e"
      unfolding calculateOrderResults_def by (blast dest: mapThrowing_Inl_source)
    then have "e = ''Route '' @ assignedRoute order @ '' not found''"
      by (simp add: orderResult_def Let_def split: option.splits)
    then show ?thesis by (simp add: validationMessages_def)
  qed
  with Inr show ?thesis by simp
qed

lemma runSimulation_validation_iff:
  "(\<exists>e\<in>set validationMessages.
       runSimulation c input drivers routes orders = Inl (''Simulation failed: '' @ e))
     \<longleftrightarrow> (\<exists>e. validateSimulationInput input = Inl e)"
proof
  assume "\<exists>e\<in>set validationMessages.
       runSimulation c input drivers routes orders = Inl (''Simulation failed: '' @ e)"
  then obtain e where e: "e \<in> set validationMessages"
    and run: "runSimulation c input drivers routes orders = Inl (''Simulation failed: '' @ e)"
    by blast
  from run have "runSimulationBody c input drivers routes orders = Inl e"
    by (simp add: runSimulation_def split: sum.splits)
  from runSimulationBody_Inl_cases [OF this] e
  show "\<exists>e. validateSimulationInput input = Inl e" by blast
next
  assume "\<exists>e. validateSimulationInput input = Inl e"
  then obtain e where e: "validateSimulationInput input = Inl e" by blast
  then have "runSimulation c input drivers routes orders = Inl (''Simulation failed: '' @ e)"
    by (simp add: runSimulation_def runSimulationBody_def)
  with validateSimulationInput_messages [OF e]
  show "\<exists>e\<in>set validationMessages.
       runSimulation c input drivers routes orders = Inl (''Simulation failed: '' @ e)"
    by blast
qed

lemma Ints_le_0_iff: "x \<in> \<int> \<Longrightarrow> (x \<le> 0) = (x < (1::rat))"
  by (auto elim!: Ints_cases)

text \<open>
  C9, as the code has it. A run fails with the message of a validation check exactly when
  \<open>availableDrivers\<close> is at most 0, \<open>maxHoursPerDay\<close> (a whole number) is outside 1..24, or
  the start time does not match the pattern; the caller receives the message behind the
  prefix \<open>Simulation failed: \<close> that the \<open>catch\<close> clause of \<open>runSimulation\<close> puts before
  every message.
\<close>

theorem validation_error_prefixed:
  "(validateSimulationInput input = Inl e \<longrightarrow>
      runSimulation c input drivers routes orders = Inl (''Simulation failed: '' @ e))
   \<and> (maxHoursPerDay input \<in> \<int> \<longrightarrow>
        ((\<exists>e\<in>set validationMessages.
            runSimulation c input drivers routes orders = Inl (''Simulation failed: '' @ e))
          \<longleftrightarrow> availableDrivers input \<le> 0 \<or> maxHoursPerDay input \<notin> {1..24}
              \<or> \<not> timeRegex (startTime input)))
   \<and> (availableDrivers input \<le> 0 \<longrightarrow>
        runSimulation c input drivers routes orders
          = Inl ''Simulation failed: Available drivers must be greater than 0'')"
proof -
  have a: "runSimulation c input drivers routes orders = Inl (''Simulation failed: '' @ e)"
    if "validateSimulationInput input = Inl e"
    using that by (simp add: runSimulation_def runSimulationBody_def)
  have b: "(\<exists>e\<in>set validationMessages.
            runSimulation c input drivers routes orders = Inl (''Simulation failed: '' @ e))
          \<longleftrightarrow> availableDrivers input \<le> 0 \<or> maxHoursPerDay input \<notin> {1..24}
              \<or> \<not> timeRegex (startTime input)"
    if whole: "maxHoursPerDay input \<in> \<int>"
  proof -
    have "(maxHoursPerDay input \<le> 0 \<or> 24 < maxHoursPerDay input)
          = (maxHoursPerDay input \<notin> {1..24})"
      using Ints_le_0_iff [OF whole] by auto
    then show ?thesis
      by (simp only: runSimulation_validation_iff validateSimulationInput_Inl_iff) blast
  qed
  have c: "runSimulation c input drivers routes orders
          = Inl ''Simulation failed: Available drivers must be greater than 0''"
    if "availableDrivers input \<le> 0"
    using that by (simp add: runSimulation_def runSimulationBody_def validateSimulationInput_def)
  from a b c show ?thesis by blast
qed

theorem validation_error_prefixed_witness:
  "availableDrivers (test_input\<lparr>availableDrivers := 0\<rparr>) \<le> 0
   \<and> runSimulation test_clock (test_input\<lparr>availableDrivers := 0\<rparr>) [test_driver] [test_route]
        [test_order]
      = Inl ''Simulation failed: Available drivers must be greater than 0''
   \<and> maxHoursPerDay (test_input\<lparr>maxHoursPerDay := 25\<rparr>) \<in> \<int>
   \<and> maxHoursPerDay (test_input\<lparr>maxHoursPerDay := 25\<rparr>) \<notin> {1..24}
   \<and> (\<exists>e\<in>set validationMessages.
         runSimulation test_clock (test_input\<lparr>maxHoursPerDay := 25\<rparr>) [test_driver]
           [test_route] [test_order] = Inl (''Simulation failed: '' @ e))"
proof -
  have h: "availableDrivers (test_input\<lparr>availableDrivers := 0\<rparr>) \<le> 0" by simp
  have w: "maxHoursPerDay (test_input\<lparr>maxHoursPerDay := 25\<rparr>) \<in> \<int>" by simp
  have o: "maxHoursPerDay (test_input\<lparr>maxHoursPerDay := 25\<rparr>) \<notin> {1..24}" by simp
  from validation_error_prefixed [of "test_input\<lparr>availableDrivers := 0\<rparr>" _ test_clock
      "[test_driver]" "[test_route]" "[test_order]"] h
  have first: "runSimulation test_clock (test_input\<lparr>availableDrivers := 0\<rparr>) [test_driver]
        [test_route] [test_order]
      = Inl ''Simulation failed: Available drivers must be greater than 0''"
    by blast
  from validation_error_prefixed [of "test_input\<lparr>maxHoursPerDay := 25\<rparr>" _ test_clock
      "[test_driver]" "[test_route]" "[test_order]"] w o
  have "\<exists>e\<in>set validationMessages.
         runSimulation test_clock (test_input\<lparr>maxHoursPerDay := 25\<rparr>) [test_driver]
           [test_route] [test_order] = Inl (''Simulation failed: '' @ e)"
    by blast
  with h w o first show ?thesis by blast
qed

text \<open>C9 as stated fails: the caller does not receive the validation message as it is.\<close>

theorem validation_message_counterexample:
  "runSimulation test_clock (test_input\<lparr>availableDrivers := 0\<rparr>) [test_driver] [test_route]
        [test_order]
      = Inl ''Simulation failed: Available drivers must be greater than 0''
   \<and> runSimulation test_clock (test_input\<lparr>availableDrivers := 0\<rparr>) [test_driver] [test_route]
        [test_order]
      \<noteq> Inl ''Available drivers must be greater than 0''"
proof -
  have "runSimulation test_clock (test_input\<lparr>availableDrivers := 0\<rparr>) [test_driver]
        [test_route] [test_order]
      = Inl ''Simulation failed: Available drivers must be greater than 0''"
    by (simp add: runSimulation_def runSimulationBody_def validateSimulationInput_def)
  then show ?thesis by simp
qed

subsection \<open>The start time pattern\<close>

lemma isDigit_cases:
  "isDigit c \<Longrightarrow>
     c = CHR ''0'' \<or> c = CHR ''1'' \<or> c = CHR ''2'' \<or> c = CHR ''3'' \<or> c = CHR ''4''
     \<or> c = CHR ''5'' \<or> c = CHR ''6'' \<or> c = CHR ''7'' \<or> c = CHR ''8'' \<or> c = CHR ''9''"
  by (simp add: isDigit_def)

lemma digitVal_digits [simp]:
  "digitVal CHR ''0'' = 0" "digitVal CHR ''1'' = 1" "digitVal CHR ''2'' = 2"
  "digitVal CHR ''3'' = 3" "digitVal CHR ''4'' = 4" "digitVal CHR ''5'' = 5"
  "digitVal CHR ''6'' = 6" "digitVal CHR ''7'' = 7" "digitVal CHR ''8'' = 8"
  "digitVal CHR ''9'' = 9"
  by (simp_all add: digitVal_def)

lemma digitVal_range: "isDigit c \<Longrightarrow> 0 \<le> digitVal c \<and> digitVal c \<le> 9"
  by (auto dest!: isDigit_cases)

lemma hourPart_two_digits:
  assumes "isDigit h1" and "isDigit h2" and "10 * digitVal h1 + digitVal h2 \<le> 23"
  shows "hourPart [h1, h2]"
proof -
  from digitVal_range [OF assms(2)] assms(3) have "digitVal h1 \<le> 2" by linarith
  with isDigit_cases [OF assms(1)]
  have "h1 = CHR ''0'' \<or> h1 = CHR ''1'' \<or> h1 = CHR ''2''" by auto
  moreover have "h2 \<in> set ''0123''" if "h1 = CHR ''2''"
  proof -
    from that assms(3) have "digitVal h2 \<le> 3" by simp
    with isDigit_cases [OF assms(2)] show ?thesis by auto
  qed
  ultimately show ?thesis using assms(2) by (auto simp add: hourPart_def)
qed

lemma minutePart_two_digits:
  assumes "isDigit m1" and "isDigit m2" and "10 * digitVal m1 + digitVal m2 \<le> 59"
  shows "minutePart [m1, m2]"
proof -
  from digitVal_range [OF assms(2)] assms(3) have "digitVal m1 \<le> 5" by linarith
  with isDigit_cases [OF assms(1)] have "m1 \<in> set ''012345''" by auto
  with assms(2) show ?thesis by (simp add: minutePart_def)
qed

lemma twoDigitHHMM_timeRegex: "twoDigitHHMM s \<Longrightarrow> timeRegex s"
  by (auto simp add: twoDigitHHMM_def timeRegex_def hourPart_two_digits minutePart_two_digits
        split: list.splits)

text \<open>
  C10. The start time \<open>8:30\<close>, with one digit for the hour, passes the validation. With the
  two numbers in range, the validation refuses a start time exactly when the pattern does
  not match it; every time of the form HH:MM matches, and \<open>8:30\<close> matches without being
  of that form.
\<close>

theorem single_digit_hour_accepted:
  "validateSimulationInput \<lparr>availableDrivers = 1, startTime = ''8:30'', maxHoursPerDay = 10\<rparr>
     = Inr ()
   \<and> timeRegex ''8:30'' \<and> \<not> twoDigitHHMM ''8:30''
   \<and> (\<forall>s. twoDigitHHMM s \<longrightarrow> timeRegex s)
   \<and> (0 < availableDrivers input \<and> 0 < maxHoursPerDay input \<and> maxHoursPerDay input \<le> 24 \<longrightarrow>
        ((\<exists>e. validateSimulationInput input = Inl e) \<longleftrightarrow> \<not> timeRegex (startTime input))
        \<and> (\<not> timeRegex (startTime input) \<longrightarrow>
             validateSimulationInput input = Inl ''Start time must be in HH:MM format''))"
proof -
  have m: "timeRegex ''8:30''"
    by (simp add: timeRegex_def hourPart_def minutePart_def isDigit_def)
  then have "validateSimulationInput
      \<lparr>availableDrivers = 1, startTime = ''8:30'', maxHoursPerDay = 10\<rparr> = Inr ()"
    by (simp add: validateSimulationInput_def)
  moreover have "\<not> twoDigitHHMM ''8:30''"
    by (simp add: twoDigitHHMM_def)
  moreover have "\<forall>s. twoDigitHHMM s \<longrightarrow> timeRegex s"
    by (simp add: twoDigitHHMM_timeRegex)
  moreover have "((\<exists>e. validateSimulationInput input = Inl e) \<longleftrightarrow> \<not> timeRegex (startTime input))
        \<and> (\<not> timeRegex (startTime input) \<longrightarrow>
             validateSimulationInput input = Inl ''Start time must be in HH:MM format'')"
    if "0 < availableDrivers input \<and> 0 < maxHoursPerDay input \<and> maxHoursPerDay input \<le> 24"
    using that by (simp add: validateSimulationInput_def)
  ultimately show ?thesis using m by blast
qed

theorem single_digit_hour_accepted_witness:
  "twoDigitHHMM ''08:30'' \<and> timeRegex ''08:30''
   \<and> 0 < availableDrivers test_input \<and> 0 < maxHoursPerDay test_input
   \<and> maxHoursPerDay test_input \<le> 24
   \<and> \<not> timeRegex (startTime (test_input\<lparr>startTime := ''25:00''\<rparr>))
   \<and> validateSimulationInput (test_input\<lparr>startTime := ''25:00''\<rparr>)
       = Inl ''Start time must be in HH:MM format''"
proof -
  have s: "twoDigitHHMM ''08:30''"
    by (simp add: twoDigitHHMM_def isDigit_def)
  have r: "0 < availableDrivers (test_input\<lparr>startTime := ''25:00''\<rparr>)
     \<and> 0 < maxHoursPerDay (test_input\<lparr>startTime := ''25:00''\<rparr>)
     \<and> maxHoursPerDay (test_input\<lparr>startTime := ''25:00''\<rparr>) \<le> 24"
    by (simp add: test_input_def)
  have n: "\<not> timeRegex (startTime (test_input\<lparr>startTime := ''25:00''\<rparr>))"
    by (simp add: timeRegex_def hourPart_def minutePart_def isDigit_def)
  note T = single_digit_hour_accepted [of "test_input\<lparr>startTime := ''25:00''\<rparr>"]
  from T s have "timeRegex ''08:30''" by blast
  moreover from T r n
  have "validateSimulationInput (test_input\<lparr>startTime := ''25:00''\<rparr>)
       = Inl ''Start time must be in HH:MM format''"
    by blast
  ultimately show ?thesis using s r n by simp
qed

end
